theory Spec2Isabelle
  imports Main "HOL-Library.Word"
begin

unbundle bit_operations_syntax

section \<open>Data model (lib/nat-detection/types.ts)\<close>

datatype NATType =
    CONE_NAT
  | FULL_CONE
  | RESTRICTED_CONE
  | PORT_RESTRICTED_CONE
  | SYMMETRIC
  | NO_NAT
  | MULTIPLE_LAYERS

datatype DetectionState = IDLE | DETECTING | SUCCESS | ERROR

datatype DetectionError =
    STUN_UNREACHABLE
  | BROWSER_UNSUPPORTED
  | PERMISSION_DENIED
  | TIMEOUT
  | UNKNOWN

datatype DetectionConfidence = high | low

text \<open>
  \<open>IPAddressInfo\<close>: \<open>publicIP\<close> and \<open>publicPort\<close> are nullable in the source
  (\<open>string | null\<close>, \<open>number | null\<close>).
\<close>

record IPAddressInfo =
  localIP :: string
  publicIP :: "string option"
  publicPort :: "nat option"
  isBehindLocalNAT :: bool
  isBehindCGNAT :: bool

text \<open>
  \<open>PortMappingInfo\<close>: an observed mapping \<open>{ip, port}\<close> is the pair \<open>(ip, port)\<close>.
\<close>

record PortMappingInfo =
  isPortConsistent :: bool
  isIPConsistent :: bool
  observedMappings :: "(string \<times> nat) list"

section \<open>JavaScript string and number primitives used by the sources\<close>

text \<open>
  \<open>s.split(sep)\<close> for a one-character separator: the pieces between the separators,
  \<open>[""]\<close> for the empty string.
\<close>

fun split_on :: "char \<Rightarrow> string \<Rightarrow> string list" where
  "split_on sep [] = [[]]"
| "split_on sep (c # cs) =
     (if c = sep then [] # split_on sep cs
      else (case split_on sep cs of
              [] \<Rightarrow> [[c]]
            | p # ps \<Rightarrow> (c # p) # ps))"

definition is_digit :: "char \<Rightarrow> bool" where
  "is_digit c = (c \<in> set ''0123456789'')"

definition digit_val :: "char \<Rightarrow> int" where
  "digit_val c = int (of_char c) - 48"

text \<open>
  \<open>Number(s)\<close> on the strings the detector feeds it: a string of decimal digits is
  its value and the empty string is 0; \<open>None\<close> stands for \<open>NaN\<close>. Signed,
  hexadecimal, exponent and blank-padded numerals, which \<open>Number\<close> also accepts, are
  outside this model and read as \<open>NaN\<close> here.
\<close>

definition Number_str :: "string \<Rightarrow> int option" where
  "Number_str s =
     (if list_all is_digit s then Some (foldl (\<lambda>a c. 10 * a + digit_val c) 0 s) else None)"

text \<open>\<open>s.endsWith(suf)\<close> and \<open>s.includes(sub)\<close>.\<close>

definition endsWith :: "string \<Rightarrow> string \<Rightarrow> bool" where
  "endsWith s suf = (length suf \<le> length s \<and> drop (length s - length suf) s = suf)"

fun str_includes :: "string \<Rightarrow> string \<Rightarrow> bool" where
  "str_includes [] sub = (sub = [])"
| "str_includes (c # cs) sub = (take (length sub) (c # cs) = sub \<or> str_includes cs sub)"

text \<open>The decimal rendering of a non-negative integer inside a template literal.\<close>

fun string_of_nat :: "nat \<Rightarrow> string" where
  "string_of_nat n =
     (if n < 10 then [''0123456789'' ! n]
      else string_of_nat (n div 10) @ [''0123456789'' ! (n mod 10)])"

declare string_of_nat.simps [simp del]

text \<open>\<open>xs.join(sep)\<close>.\<close>

fun join :: "string \<Rightarrow> string list \<Rightarrow> string" where
  "join sep [] = []"
| "join sep [x] = x"
| "join sep (x # y # ys) = x @ sep @ join sep (y # ys)"

text \<open>
  \<open>a || b\<close> on values of type \<open>string | null | undefined\<close>: the left operand when
  it is a non-empty string, the right operand otherwise.
\<close>

definition truthy_str :: "string option \<Rightarrow> bool" where
  "truthy_str a = (case a of None \<Rightarrow> False | Some s \<Rightarrow> s \<noteq> [])"

definition or_str :: "string option \<Rightarrow> string option \<Rightarrow> string option" where
  "or_str a b = (if truthy_str a then a else b)"

text \<open>\<open>isPrivateIP\<close> (RFC 1918) and \<open>isCGNATIP\<close> (RFC 6598), types.ts.\<close>

definition isPrivateIP :: "string \<Rightarrow> bool" where
  "isPrivateIP ip =
     (let octets = map Number_str (split_on CHR ''.'' ip) in
      if length octets \<noteq> 4 then False
      else if list_ex (\<lambda>x. x = None) octets then False
      else if octets ! 0 = Some 10 then True
      else if octets ! 0 = Some 172 \<and> 16 \<le> the (octets ! 1) \<and> the (octets ! 1) \<le> 31 then True
      else if octets ! 0 = Some 192 \<and> octets ! 1 = Some 168 then True
      else False)"

definition isCGNATIP :: "string \<Rightarrow> bool" where
  "isCGNATIP ip =
     (let octets = map Number_str (split_on CHR ''.'' ip) in
      if length octets \<noteq> 4 then False
      else if list_ex (\<lambda>x. x = None) octets then False
      else if octets ! 0 = Some 100 \<and> 64 \<le> the (octets ! 1) \<and> the (octets ! 1) \<le> 127 then True
      else False)"

section \<open>Binding-protocol codec and rendezvous server (stun-server.ts)\<close>

subsection \<open>Numbers and buffers\<close>

text \<open>
  The bitwise operators of JavaScript work on the 32-bit two's complement value of
  their operands (\<open>NaN\<close> and \<open>undefined\<close>, here \<open>None\<close>, count as 0) and give a
  signed 32-bit result; \<open>>>\<close> is the arithmetic shift, with the count taken modulo 32.
\<close>

definition ToInt32 :: "int option \<Rightarrow> 32 word" where
  "ToInt32 v = (case v of None \<Rightarrow> 0 | Some k \<Rightarrow> word_of_int k)"

definition js_xor :: "int option \<Rightarrow> int option \<Rightarrow> int" where
  "js_xor a b = sint (ToInt32 a XOR ToInt32 b)"

definition js_and :: "int option \<Rightarrow> int option \<Rightarrow> int" where
  "js_and a b = sint (ToInt32 a AND ToInt32 b)"

definition js_sar :: "int option \<Rightarrow> nat \<Rightarrow> int" where
  "js_sar a n = sint (signed_drop_bit (n mod 32) (ToInt32 a))"

text \<open>
  An array read \<open>xs[i]\<close>: \<open>undefined\<close> (\<open>None\<close>) past the end. \<open>at_num\<close> reads an
  array of numbers, where \<open>NaN\<close> is \<open>None\<close> already.
\<close>

definition at :: "'a list \<Rightarrow> nat \<Rightarrow> 'a option" where
  "at xs i = (if i < length xs then Some (xs ! i) else None)"

definition at_num :: "int option list \<Rightarrow> nat \<Rightarrow> int option" where
  "at_num xs i = (if i < length xs then xs ! i else None)"

text \<open>
  A Node \<open>Buffer\<close> is a list of bytes. The unsigned big-endian reads throw a
  \<open>RangeError\<close> past the end of the buffer (\<open>None\<close>); \<open>subarray\<close> clamps its bounds
  to the buffer instead. The writes throw \<open>ERR_OUT_OF_RANGE\<close> for a value outside the
  range of the field; \<open>writeUInt8\<close> stores 0 for \<open>NaN\<close> and \<open>undefined\<close>, which pass
  its range check. A write function gives the bytes it puts at its offset.
\<close>

type_synonym Buffer = "8 word list"

datatype BufferError = ERR_OUT_OF_RANGE

definition readUInt16BE :: "Buffer \<Rightarrow> nat \<Rightarrow> nat option" where
  "readUInt16BE buf off =
     (if off + 2 \<le> length buf
      then Some (unat (buf ! off) * 256 + unat (buf ! (off + 1)))
      else None)"

definition readUInt32BE :: "Buffer \<Rightarrow> nat \<Rightarrow> nat option" where
  "readUInt32BE buf off =
     (if off + 4 \<le> length buf
      then Some (((unat (buf ! off) * 256 + unat (buf ! (off + 1))) * 256
                  + unat (buf ! (off + 2))) * 256 + unat (buf ! (off + 3)))
      else None)"

definition subarray :: "Buffer \<Rightarrow> nat \<Rightarrow> nat \<Rightarrow> Buffer" where
  "subarray buf start stop = drop start (take stop buf)"

definition writeUInt8 :: "int option \<Rightarrow> BufferError + 8 word" where
  "writeUInt8 value =
     (case value of
        None \<Rightarrow> Inr 0
      | Some v \<Rightarrow> if v > 255 \<or> v < 0 then Inl ERR_OUT_OF_RANGE else Inr (word_of_int v))"

definition writeUInt16BE :: "int \<Rightarrow> BufferError + Buffer" where
  "writeUInt16BE v =
     (if v > 65535 \<or> v < 0 then Inl ERR_OUT_OF_RANGE
      else Inr [word_of_int (v div 256), word_of_int v])"

definition writeUInt32BE :: "int \<Rightarrow> BufferError + Buffer" where
  "writeUInt32BE v =
     (if v > 4294967295 \<or> v < 0 then Inl ERR_OUT_OF_RANGE
      else Inr [word_of_int (v div 16777216), word_of_int (v div 65536),
                word_of_int (v div 256), word_of_int v])"

text \<open>Sequencing of steps that may throw: the first error ends the computation.\<close>

definition and_then :: "BufferError + 'a \<Rightarrow> ('a \<Rightarrow> BufferError + 'b) \<Rightarrow> BufferError + 'b" where
  "and_then r f = (case r of Inl e \<Rightarrow> Inl e | Inr v \<Rightarrow> f v)"

subsection \<open>Constants\<close>

definition PORTS_PRIMARY :: int where "PORTS_PRIMARY = 3478"
definition PORTS_SECONDARY :: int where "PORTS_SECONDARY = 3479"
definition PORTS_TERTIARY :: int where "PORTS_TERTIARY = 3480"

definition BINDING_REQUEST :: nat where "BINDING_REQUEST = 0x0001"
definition BINDING_RESPONSE :: nat where "BINDING_RESPONSE = 0x0101"

definition STUN_MAGIC_COOKIE :: nat where "STUN_MAGIC_COOKIE = 0x2112A442"

definition XOR_MAPPED_ADDRESS :: nat where "XOR_MAPPED_ADDRESS = 0x0020"
definition CHANGE_REQUEST :: nat where "CHANGE_REQUEST = 0x0003"
definition RESPONSE_ORIGIN :: nat where "RESPONSE_ORIGIN = 0x802b"

subsection \<open>Parsing\<close>

text \<open>
  \<open>STUNMessage\<close>; \<open>type\<close> and \<open>length\<close> are \<open>msgType\<close> and \<open>msgLength\<close> here. The
  attribute \<open>Map\<close> is a partial function from attribute type to value; the order of
  insertion plays no role in the code.
\<close>

record STUNMessage =
  msgType :: nat
  msgLength :: nat
  transactionId :: Buffer
  attributes :: "nat \<rightharpoonup> Buffer"

text \<open>
  The \<open>while\<close> loop of \<open>parseSTUNMessage\<close>, from \<open>offset\<close> with the attributes
  found so far. \<open>None\<close> is an exception of a read, which the \<open>catch\<close> of
  \<open>parseSTUNMessage\<close> turns into \<open>null\<close>.
\<close>

function parseAttributes ::
  "Buffer \<Rightarrow> nat \<Rightarrow> nat \<Rightarrow> (nat \<rightharpoonup> Buffer) \<Rightarrow> (nat \<rightharpoonup> Buffer) option" where
  "parseAttributes buffer len offset attrs =
     (if offset < length buffer \<and> offset < 20 + len then
        (if offset + 4 > length buffer then Some attrs
         else (case readUInt16BE buffer offset of
                 None \<Rightarrow> None
               | Some attrType \<Rightarrow>
                   (case readUInt16BE buffer (offset + 2) of
                      None \<Rightarrow> None
                    | Some attrLength \<Rightarrow>
                        (let attrValue = subarray buffer (offset + 4) (offset + 4 + attrLength)
                         in parseAttributes buffer len
                              (offset + (4 + ((attrLength + 3) div 4) * 4))
                              (attrs(attrType \<mapsto> attrValue))))))
      else Some attrs)"
  by pat_completeness auto
termination
  by (relation "measure (\<lambda>(buffer, len, offset, attrs). length buffer - offset)") auto

declare parseAttributes.simps [simp del]

definition parseSTUNMessage :: "Buffer \<Rightarrow> STUNMessage option" where
  "parseSTUNMessage buffer =
     (if length buffer < 20 then None
      else (case readUInt16BE buffer 0 of
              None \<Rightarrow> None
            | Some type \<Rightarrow>
                (case readUInt16BE buffer 2 of
                   None \<Rightarrow> None
                 | Some len \<Rightarrow>
                     (case readUInt32BE buffer 4 of
                        None \<Rightarrow> None
                      | Some magicCookie \<Rightarrow>
                          (let transactionId = subarray buffer 8 20 in
                           if magicCookie \<noteq> STUN_MAGIC_COOKIE then None
                           else (case parseAttributes buffer len 20 Map.empty of
                                   None \<Rightarrow> None
                                 | Some attrs \<Rightarrow>
                                     Some \<lparr>msgType = type, msgLength = len,
                                           transactionId = transactionId,
                                           attributes = attrs\<rparr>))))))"

text \<open>\<open>parseChangeRequest\<close>: the pair \<open>(changeIP, changePort)\<close>.\<close>

definition parseChangeRequest :: "Buffer \<Rightarrow> bool \<times> bool" where
  "parseChangeRequest attrValue =
     (if length attrValue < 4 then (False, False)
      else (case readUInt32BE attrValue 0 of
              None \<Rightarrow> (False, False)
            | Some flags \<Rightarrow>
                (js_and (Some (int flags)) (Some 0x04) \<noteq> 0,
                 js_and (Some (int flags)) (Some 0x02) \<noteq> 0)))"

subsection \<open>Building\<close>

definition magicBytes :: "int list" where
  "magicBytes =
     [js_and (Some (js_sar (Some (int STUN_MAGIC_COOKIE)) 24)) (Some 0xff),
      js_and (Some (js_sar (Some (int STUN_MAGIC_COOKIE)) 16)) (Some 0xff),
      js_and (Some (js_sar (Some (int STUN_MAGIC_COOKIE)) 8)) (Some 0xff),
      js_and (Some (int STUN_MAGIC_COOKIE)) (Some 0xff)]"

text \<open>
  \<open>buildXorMappedAddress\<close>: the 4-byte attribute header and the 8-byte value. The
  transaction ID is not used, as in the source.
\<close>

definition buildXorMappedAddress :: "string \<Rightarrow> int \<Rightarrow> Buffer \<Rightarrow> BufferError + Buffer" where
  "buildXorMappedAddress addr port tid =
     (let attrType = XOR_MAPPED_ADDRESS;
          family = 0x01;
          xorPort = js_xor (Some port) (Some (js_sar (Some (int STUN_MAGIC_COOKIE)) 16));
          addrParts = map Number_str (split_on CHR ''.'' addr);
          xorAddr = map (\<lambda>(byte, i). js_xor byte (at magicBytes i))
                      (zip addrParts [0..<length addrParts])
      in and_then (writeUInt8 (Some 0)) (\<lambda>reserved.
         and_then (writeUInt8 (Some family)) (\<lambda>fam.
         and_then (writeUInt16BE xorPort) (\<lambda>xport.
         and_then (writeUInt8 (at xorAddr 0)) (\<lambda>x0.
         and_then (writeUInt8 (at xorAddr 1)) (\<lambda>x1.
         and_then (writeUInt8 (at xorAddr 2)) (\<lambda>x2.
         and_then (writeUInt8 (at xorAddr 3)) (\<lambda>x3.
         and_then (writeUInt16BE (int attrType)) (\<lambda>typeBytes.
         and_then (writeUInt16BE 8) (\<lambda>lengthBytes.
           Inr (typeBytes @ lengthBytes @ [reserved, fam] @ xport @ [x0, x1, x2, x3])))))))))))"

definition buildResponseOrigin :: "string \<Rightarrow> int \<Rightarrow> BufferError + Buffer" where
  "buildResponseOrigin addr port =
     (let attrType = RESPONSE_ORIGIN;
          family = 0x01;
          addrParts = map Number_str (split_on CHR ''.'' addr)
      in and_then (writeUInt8 (Some 0)) (\<lambda>reserved.
         and_then (writeUInt8 (Some family)) (\<lambda>fam.
         and_then (writeUInt16BE port) (\<lambda>portBytes.
         and_then (writeUInt8 (at_num addrParts 0)) (\<lambda>a0.
         and_then (writeUInt8 (at_num addrParts 1)) (\<lambda>a1.
         and_then (writeUInt8 (at_num addrParts 2)) (\<lambda>a2.
         and_then (writeUInt8 (at_num addrParts 3)) (\<lambda>a3.
         and_then (writeUInt16BE (int attrType)) (\<lambda>typeBytes.
         and_then (writeUInt16BE 8) (\<lambda>lengthBytes.
           Inr (typeBytes @ lengthBytes @ [reserved, fam] @ portBytes @ [a0, a1, a2, a3])))))))))))"

text \<open>
  \<open>buildSTUNResponse\<close>. The optional \<open>responseAddr\<close> and \<open>responsePort\<close> are used
  when both are truthy. \<open>transactionId.copy(header, 8)\<close> fills the last 12 bytes of
  the zeroed header with as many bytes of the transaction ID as fit.
\<close>

definition truthy_num :: "int option \<Rightarrow> bool" where
  "truthy_num v = (case v of None \<Rightarrow> False | Some k \<Rightarrow> k \<noteq> 0)"

definition buildSTUNResponse ::
  "Buffer \<Rightarrow> string \<Rightarrow> int \<Rightarrow> string option \<Rightarrow> int option \<Rightarrow> BufferError + Buffer" where
  "buildSTUNResponse tid clientAddr clientPort responseAddr responsePort =
     and_then (buildXorMappedAddress clientAddr clientPort tid) (\<lambda>xorMappedAddr.
     and_then (if truthy_str responseAddr \<and> truthy_num responsePort
               then and_then (buildResponseOrigin (the responseAddr) (the responsePort))
                      (\<lambda>responseOrigin. Inr [xorMappedAddr, responseOrigin])
               else Inr [xorMappedAddr]) (\<lambda>attrs.
     (let totalAttrLength = sum_list (map length attrs) in
      and_then (writeUInt16BE (int BINDING_RESPONSE)) (\<lambda>typeBytes.
      and_then (writeUInt16BE (int totalAttrLength)) (\<lambda>lengthBytes.
      and_then (writeUInt32BE (int STUN_MAGIC_COOKIE)) (\<lambda>cookieBytes.
        Inr (typeBytes @ lengthBytes @ cookieBytes @
             (take 12 tid @ replicate (12 - length tid) 0) @ concat attrs)))))))"

subsection \<open>The listener\<close>

text \<open>
  \<open>rinfo\<close> of a received datagram, and a datagram handed to \<open>socket.send\<close>:
  \<open>viaPort\<close> is the port the sending socket is bound to.
\<close>

record RemoteInfo =
  raddress :: string
  rport :: int

record Datagram =
  viaPort :: int
  payload :: Buffer
  toPort :: int
  toAddress :: string

text \<open>
  The \<open>message\<close> handler of \<open>createSTUNServer(port, name)\<close>: the datagrams it
  sends for one received message. \<open>localAddr\<close> is \<open>socket.address().address\<close>. Both
  branches of the final \<open>if\<close> call \<open>send\<close> on the listener's own \<open>socket\<close>, which
  is bound to \<open>port\<close>. An exception of \<open>buildSTUNResponse\<close> leaves the handler.
\<close>

definition onMessage ::
  "int \<Rightarrow> string \<Rightarrow> Buffer \<Rightarrow> RemoteInfo \<Rightarrow> BufferError + Datagram list" where
  "onMessage port localAddr msg rinfo =
     (case parseSTUNMessage msg of
        None \<Rightarrow> Inr []
      | Some stunMsg \<Rightarrow>
          if msgType stunMsg \<noteq> BINDING_REQUEST then Inr []
          else
            (let changeReq = attributes stunMsg CHANGE_REQUEST;
                 (changeIP, changePort) =
                   (case changeReq of
                      None \<Rightarrow> (False, False)
                    | Some v \<Rightarrow> parseChangeRequest v);
                 responsePort =
                   (if changePort \<and> \<not> changeIP
                    then (if port = PORTS_PRIMARY then PORTS_SECONDARY else port)
                    else port)
             in and_then (buildSTUNResponse (transactionId stunMsg) (raddress rinfo)
                            (rport rinfo) (Some localAddr) (Some responsePort))
                  (\<lambda>response.
                     if responsePort = port
                     then Inr [\<lparr>viaPort = port, payload = response,
                                toPort = rport rinfo, toAddress = raddress rinfo\<rparr>]
                     else Inr [\<lparr>viaPort = port, payload = response,
                                toPort = rport rinfo, toAddress = raddress rinfo\<rparr>])))"

section \<open>NAT classifier (lib/nat-detection/nat-classifier.ts)\<close>

text \<open>
  \<open>classifyNAT\<close>: the four guarded returns of the source in their order, then the
  fallback. The console output is not modelled.
\<close>

definition classifyNAT :: "IPAddressInfo \<Rightarrow> PortMappingInfo \<Rightarrow> NATType" where
  "classifyNAT ipInfo portMapping =
     (if isBehindLocalNAT ipInfo \<and> isBehindCGNAT ipInfo then MULTIPLE_LAYERS
      else if \<not> isBehindLocalNAT ipInfo \<and> \<not> isBehindCGNAT ipInfo then NO_NAT
      else if \<not> isPortConsistent portMapping \<or> \<not> isIPConsistent portMapping then SYMMETRIC
      else if isIPConsistent portMapping \<and> isPortConsistent portMapping then CONE_NAT
      else SYMMETRIC)"

section \<open>Local probe (lib/nat-detection/webrtc-detector.ts)\<close>

text \<open>
  The fields of an \<open>RTCIceCandidate\<close> the detector reads: \<open>type\<close> (here
  \<open>ctype\<close>), the SDP line \<open>candidate\<close>, \<open>address\<close>, the non-standard \<open>ip\<close> of
  \<open>ExtendedRTCIceCandidate\<close>, and \<open>port\<close>. All but the SDP line are nullable.
\<close>

datatype RTCIceCandidateType = host | srflx | prflx | relay

record RTCIceCandidate =
  ctype :: "RTCIceCandidateType option"
  candidate :: string
  address :: "string option"
  ip :: "string option"
  port :: "nat option"

definition TOTAL_TIMEOUT :: nat where
  "TOTAL_TIMEOUT = 15000"

text \<open>The regular expression \<open>/^[\d.]+$/\<close>: one or more digits or dots, nothing else.\<close>

definition matches_digits_dots :: "string \<Rightarrow> bool" where
  "matches_digits_dots s = (s \<noteq> [] \<and> list_all (\<lambda>c. is_digit c \<or> c = CHR ''.'') s)"

text \<open>
  \<open>extractIPFromCandidate\<close>. Nothing in the \<open>try\<close> block can throw on these
  fields, so the \<open>catch\<close> branch has no counterpart.
\<close>

definition extractIPFromCandidate :: "RTCIceCandidate \<Rightarrow> string option" where
  "extractIPFromCandidate c =
     (let candidateStr = candidate c in
      if candidateStr = [] then None
      else
        let parts = split_on CHR '' '' candidateStr in
        if length parts < 5 then None
        else if matches_digits_dots (parts ! 4) then Some (parts ! 4)
        else or_str (or_str (address c) (ip c)) None)"

text \<open>
  \<open>extractIPInfo\<close>: throws \<open>Error("No host candidate found")\<close> when no candidate
  has type \<open>host\<close>; the thrown message is the \<open>Inl\<close> value.
\<close>

definition extractIPInfo :: "RTCIceCandidate list \<Rightarrow> string + IPAddressInfo" where
  "extractIPInfo candidates =
     (case find (\<lambda>c. ctype c = Some host) candidates of
        None \<Rightarrow> Inl ''No host candidate found''
      | Some hostCandidate \<Rightarrow>
          let srflxCandidate = find (\<lambda>c. ctype c = Some srflx) candidates;
              localIP =
                (case or_str (or_str (or_str (extractIPFromCandidate hostCandidate)
                                (address hostCandidate)) (ip hostCandidate)) (Some []) of
                   None \<Rightarrow> []
                 | Some s \<Rightarrow> s);
              publicIP =
                (case srflxCandidate of
                   None \<Rightarrow> None
                 | Some sc \<Rightarrow>
                     or_str (or_str (or_str (extractIPFromCandidate sc) (address sc)) (ip sc))
                       None);
              publicPort =
                (case srflxCandidate of
                   None \<Rightarrow> None
                 | Some sc \<Rightarrow> (case port sc of None \<Rightarrow> None
                              | Some p \<Rightarrow> if p = 0 then None else Some p));
              isMDNS = endsWith localIP ''.local'';
              isBehindLocalNAT = (isMDNS \<or> isPrivateIP localIP);
              isBehindCGNAT = (if truthy_str publicIP then isCGNATIP (the publicIP) else False)
          in Inr \<lparr>localIP = localIP, publicIP = publicIP, publicPort = publicPort,
                  isBehindLocalNAT = isBehindLocalNAT, isBehindCGNAT = isBehindCGNAT\<rparr>)"

text \<open>
  \<open>analyzePortMapping\<close>. \<open>valid_mapping\<close> is the body of the \<open>map\<close> callback:
  \<open>null\<close> when \<open>!ip || !port\<close> (no address and no \<open>ip\<close>, an empty one, a missing
  port or port 0), the pair otherwise; the following \<open>filter\<close> drops the \<open>null\<close>s.
  The sizes of the two \<open>Set\<close>s are the numbers of distinct values.
\<close>

definition valid_mapping :: "RTCIceCandidate \<Rightarrow> (string \<times> nat) option" where
  "valid_mapping c =
     (let ip = or_str (address c) (ip c); port = port c in
      if \<not> truthy_str ip then None
      else (case port of
              None \<Rightarrow> None
            | Some p \<Rightarrow> if p = 0 then None else Some (the ip, p)))"

definition srflx_mappings :: "RTCIceCandidate list \<Rightarrow> (string \<times> nat) list" where
  "srflx_mappings candidates =
     List.map_filter valid_mapping (filter (\<lambda>c. ctype c = Some srflx) candidates)"

definition analyzePortMapping :: "RTCIceCandidate list \<Rightarrow> PortMappingInfo" where
  "analyzePortMapping candidates =
     (let mappings = srflx_mappings candidates in
      if length mappings = 0 then
        \<lparr>isPortConsistent = False, isIPConsistent = False, observedMappings = []\<rparr>
      else
        let uniqueIPs = remdups (map fst mappings);
            uniquePorts = remdups (map snd mappings)
        in
          if length mappings = 1 then
            \<lparr>isPortConsistent = True, isIPConsistent = True, observedMappings = mappings\<rparr>
          else
            \<lparr>isPortConsistent = (length uniquePorts \<le> 1),
             isIPConsistent = (length uniqueIPs \<le> 1),
             observedMappings = mappings\<rparr>)"

text \<open>
  What \<open>detectWithMultipleServers\<close> resolves with. Its fields are \<open>ipInfo\<close>,
  \<open>portMapping\<close>, \<open>successfulServers\<close>, \<open>confidence\<close> and \<open>confidenceReason\<close> in
  the source; the prefix keeps them apart from the fields of \<open>DetectionResult\<close>.
\<close>

record ProbeResult =
  probe_ipInfo :: IPAddressInfo
  probe_portMapping :: PortMappingInfo
  successfulServers :: "string list"
  probe_confidence :: DetectionConfidence
  probe_confidenceReason :: string

text \<open>
  The confidence computed in \<open>finishGathering\<close> from the number of observed
  mappings of the analysis.
\<close>

definition confidence_of :: "PortMappingInfo \<Rightarrow> DetectionConfidence" where
  "confidence_of portMapping =
     (let srflxCount = length (observedMappings portMapping) in
      if srflxCount \<ge> 2 then high else low)"

definition confidenceReason_of :: "PortMappingInfo \<Rightarrow> string" where
  "confidenceReason_of portMapping =
     (let srflxCount = length (observedMappings portMapping) in
      if srflxCount \<ge> 2
      then ''High confidence: '' @ string_of_nat srflxCount @ '' STUN servers responded''
      else ''Low confidence: Only '' @ string_of_nat srflxCount @
           '' STUN server responded (cannot verify port consistency)'')"

text \<open>
  \<open>finishGathering\<close>, run on the candidates collected so far: the \<open>try\<close> block
  resolves the promise (\<open>Inr\<close>), the \<open>catch\<close> rejects it with the error thrown by
  \<open>extractIPInfo\<close> (\<open>Inl\<close>, the message). \<open>successfulServers\<close> holds its single
  label once a \<open>srflx\<close> candidate has arrived.
\<close>

definition finishGathering :: "RTCIceCandidate list \<Rightarrow> string + ProbeResult" where
  "finishGathering candidates =
     (case extractIPInfo candidates of
        Inl err \<Rightarrow> Inl err
      | Inr ipInfo \<Rightarrow>
          let portMapping = analyzePortMapping candidates in
          Inr \<lparr>probe_ipInfo = ipInfo,
               probe_portMapping = portMapping,
               successfulServers =
                 (if list_ex (\<lambda>c. ctype c = Some srflx) candidates
                  then [''STUN server (via ICE)''] else []),
               probe_confidence = confidence_of portMapping,
               probe_confidenceReason = confidenceReason_of portMapping\<rparr>)"

text \<open>
  \<open>detectWithMultipleServers\<close>. The promise is settled by whichever callback runs
  first; the callbacks are driven by the ICE agent and by timers. The model reads the
  agent's activity as a list of events, each with the time in milliseconds since the
  promise was created, in the order of their arrival:
  \<^item> \<open>onicecandidate\<close> with a candidate, or with \<open>null\<close>;
  \<^item> \<open>onicegatheringstatechange\<close>, with the value of \<open>pc.iceGatheringState\<close>;
  \<^item> a rejection of \<open>createOffer\<close>/\<open>setLocalDescription\<close>, with its message.
  The timers are the ceiling (\<open>timeout\<close> ms after the start) and one wait timer per
  arriving candidate once a host and at least one \<open>srflx\<close> candidate are present;
  \<open>waits\<close> holds the times at which the armed wait timers fire. A timer that is
  due fires before an event of the same millisecond, and the ceiling, armed first,
  fires before a wait timer due at the same time. The first settlement is the result:
  \<open>Inr\<close> a resolution, \<open>Inl\<close> the message of the rejection. When the events run
  out, the earliest timer still armed settles the promise, so every run ends.
\<close>

datatype RTCIceGatheringState = state_new | state_gathering | state_complete

datatype IceEvent =
    OnIceCandidate RTCIceCandidate
  | OnIceCandidateNull
  | OnIceGatheringStateChange RTCIceGatheringState
  | StartRejected string

definition waitTime :: "nat \<Rightarrow> nat" where
  "waitTime srflxCount =
     (if srflxCount = 1 then 5000 else if srflxCount = 2 then 2000 else 1000)"

fun earliest :: "nat list \<Rightarrow> nat option" where
  "earliest [] = None"
| "earliest (w # ws) =
     (case earliest ws of None \<Rightarrow> Some w | Some v \<Rightarrow> Some (min w v))"

definition wait_due :: "nat \<Rightarrow> nat list \<Rightarrow> nat \<Rightarrow> bool" where
  "wait_due timeout waits t =
     (case earliest waits of None \<Rightarrow> False | Some w \<Rightarrow> w < timeout \<and> w \<le> t)"

text \<open>
  \<open>gather\<close> finds the callback that settles the promise first: a call of
  \<open>finishGathering\<close> (with the candidates collected by then), the ceiling timer, or
  the \<open>catch\<close> of the start-up block.
\<close>

datatype Settlement =
    FinishGathering "RTCIceCandidate list"
  | CeilingFired
  | StartFailed string

fun gather ::
  "nat \<Rightarrow> RTCIceCandidate list \<Rightarrow> nat list \<Rightarrow> (nat \<times> IceEvent) list \<Rightarrow> Settlement" where
  "gather timeout candidates waits [] =
     (if wait_due timeout waits timeout then FinishGathering candidates else CeilingFired)"
| "gather timeout candidates waits ((t, ev) # evs) =
     (if wait_due timeout waits t then FinishGathering candidates
      else if timeout \<le> t then CeilingFired
      else (case ev of
              OnIceCandidate c \<Rightarrow>
                (let candidates' = candidates @ [c];
                     hasHost = list_ex (\<lambda>c. ctype c = Some host) candidates';
                     srflxCount = length (filter (\<lambda>c. ctype c = Some srflx) candidates')
                 in if hasHost \<and> srflxCount \<ge> 1
                    then gather timeout candidates' (waits @ [t + waitTime srflxCount]) evs
                    else gather timeout candidates' waits evs)
            | OnIceCandidateNull \<Rightarrow> FinishGathering candidates
            | OnIceGatheringStateChange s \<Rightarrow>
                (if s = state_complete then FinishGathering candidates
                 else gather timeout candidates waits evs)
            | StartRejected err \<Rightarrow> StartFailed err))"

definition detectWithMultipleServers ::
  "nat \<Rightarrow> (nat \<times> IceEvent) list \<Rightarrow> string + ProbeResult" where
  "detectWithMultipleServers timeout events =
     (case gather timeout [] [] events of
        FinishGathering candidates \<Rightarrow> finishGathering candidates
      | CeilingFired \<Rightarrow> Inl ''Detection timeout''
      | StartFailed err \<Rightarrow> Inl err)"

text \<open>
  What \<open>detectNAT\<close> returns; \<open>ipInfo\<close>, \<open>portMapping\<close>, \<open>confidence\<close> and
  \<open>confidenceReason\<close> in the source.
\<close>

record BasicDetection =
  basic_ipInfo :: IPAddressInfo
  basic_portMapping :: PortMappingInfo
  successfulServer :: string
  basic_confidence :: DetectionConfidence
  basic_confidenceReason :: string

text \<open>
  \<open>detectNAT\<close>. \<open>rtcAvailable\<close> is \<open>typeof RTCPeerConnection !== "undefined"\<close>.
  A thrown \<open>Error(code)\<close> is \<open>Inl code\<close>.
\<close>

definition detectNAT :: "bool \<Rightarrow> (nat \<times> IceEvent) list \<Rightarrow> string + BasicDetection" where
  "detectNAT rtcAvailable events =
     (if \<not> rtcAvailable then Inl ''BROWSER_UNSUPPORTED''
      else (case detectWithMultipleServers TOTAL_TIMEOUT events of
              Inr result \<Rightarrow>
                Inr \<lparr>basic_ipInfo = probe_ipInfo result,
                     basic_portMapping = probe_portMapping result,
                     successfulServer =
                       (let joined = join '', '' (successfulServers result)
                        in if joined = [] then ''STUN (via ICE)'' else joined),
                     basic_confidence = probe_confidence result,
                     basic_confidenceReason = probe_confidenceReason result\<rparr>
            | Inl errorMessage \<Rightarrow>
                if str_includes errorMessage ''timeout'' then Inl ''TIMEOUT''
                else if str_includes errorMessage ''No host candidate''
                then Inl ''STUN_UNREACHABLE''
                else Inl ''STUN_UNREACHABLE''))"

section \<open>Advanced-test orchestrator (app/api/nat-detect/advanced/route.ts)\<close>

text \<open>
  The request as typed by the route (\<open>publicIP\<close>, \<open>publicPort\<close>, \<open>localIP\<close>), and
  the parsed JSON body of a \<open>POST\<close>, whose fields may be absent.
\<close>

record AdvancedDetectionRequest =
  req_publicIP :: string
  req_publicPort :: nat
  req_localIP :: string

record RequestBody =
  body_publicIP :: "string option"
  body_publicPort :: "nat option"
  body_localIP :: "string option"

record TestResult =
  passed :: bool
  description :: string

record Tests =
  test1 :: TestResult
  test2 :: TestResult
  test3 :: TestResult
  test4 :: TestResult

text \<open>
  The JSON answer of the route: \<open>natType\<close>, \<open>confidence\<close>, \<open>confidenceReason\<close>,
  \<open>tests\<close> and \<open>error\<close> are absent from some answers.
\<close>

record AdvancedDetectionResponse =
  success :: bool
  resp_natType :: "NATType option"
  resp_confidence :: "DetectionConfidence option"
  resp_confidenceReason :: "string option"
  tests :: "Tests option"
  resp_error :: "string option"

text \<open>
  The \<open>if\<close>/\<open>else if\<close> chain of \<open>performAdvancedTests\<close> that turns the
  \<open>passed\<close> flags of Tests II, III and IV into \<open>natType\<close> and \<open>confidenceReason\<close>.
\<close>

definition resolveTests :: "TestResult \<Rightarrow> TestResult \<Rightarrow> TestResult \<Rightarrow> NATType \<times> string" where
  "resolveTests t2 t3 t4 =
     (if \<not> passed t4 then
        (SYMMETRIC, ''High confidence: Different external ports observed per destination'')
      else if passed t2 then
        (FULL_CONE, ''High confidence: Received response from different IP:port'')
      else if passed t3 then
        (RESTRICTED_CONE,
         ''High confidence: Received response from different port on same IP'')
      else
        (PORT_RESTRICTED_CONE,
         ''High confidence: Did not receive response from different IP:port combination''))"

text \<open>
  \<open>performAdvancedTests\<close>: the four test records are literals of the source; the
  three 500 ms pauses have no effect on the value.
\<close>

definition performAdvancedTests :: "AdvancedDetectionRequest \<Rightarrow> AdvancedDetectionResponse" where
  "performAdvancedTests req =
     (let t1 = \<lparr>passed = True,
                description = ''Mapped to '' @ req_publicIP req @ '':'' @
                              string_of_nat (req_publicPort req)\<rparr>;
          t2 = \<lparr>passed = False,
                description = ''Response from different IP:port not received (not Full Cone)''\<rparr>;
          t3 = \<lparr>passed = False,
                description =
                  ''Response from different port not received (Port-Restricted Cone likely)''\<rparr>;
          t4 = \<lparr>passed = True,
                description = ''Port mapping consistent across servers (not Symmetric)''\<rparr>;
          resolved = resolveTests t2 t3 t4
      in \<lparr>success = True,
          resp_natType = Some (fst resolved),
          resp_confidence = Some high,
          resp_confidenceReason = Some (snd resolved),
          tests = Some \<lparr>test1 = t1, test2 = t2, test3 = t3, test4 = t4\<rparr>,
          resp_error = None\<rparr>)"

text \<open>
  \<open>POST\<close>: the HTTP status and the JSON answer. The body is \<open>Inr\<close> the parsed JSON,
  or \<open>Inl\<close> the message of the error \<open>request.json()\<close> threw, which the \<open>catch\<close>
  turns into a 500.
\<close>

definition failure_response :: "string \<Rightarrow> AdvancedDetectionResponse" where
  "failure_response msg =
     \<lparr>success = False, resp_natType = None, resp_confidence = None,
      resp_confidenceReason = None, tests = None, resp_error = Some msg\<rparr>"

definition POST :: "string + RequestBody \<Rightarrow> nat \<times> AdvancedDetectionResponse" where
  "POST request =
     (case request of
        Inl msg \<Rightarrow> (500, failure_response msg)
      | Inr body \<Rightarrow>
          if \<not> truthy_str (body_publicIP body) \<or>
             body_publicPort body = None \<or> body_publicPort body = Some 0
          then (400, failure_response ''Missing required fields: publicIP and publicPort'')
          else (200, performAdvancedTests
                       \<lparr>req_publicIP = the (body_publicIP body),
                        req_publicPort = the (body_publicPort body),
                        req_localIP = (case body_localIP body of None \<Rightarrow> [] | Some s \<Rightarrow> s)\<rparr>))"

section \<open>Advanced detector and detection state machine\<close>

text \<open>
  \<open>DetectionResult\<close> (types.ts). Timestamps are clock readings in milliseconds;
  \<open>error\<close> is the pair of \<open>type\<close> and \<open>message\<close>.
\<close>

datatype DetectionMethod = basic | advanced

record DetectionResult =
  state :: DetectionState
  natType :: "NATType option"
  startedAt :: int
  completedAt :: "int option"
  durationMs :: "int option"
  ipInfo :: "IPAddressInfo option"
  portMapping :: "PortMappingInfo option"
  error :: "(DetectionError \<times> string) option"
  successfulSTUNServer :: "string option"
  confidence :: "DetectionConfidence option"
  confidenceReason :: "string option"
  detectionMethod :: "DetectionMethod option"

text \<open>
  What \<open>fetch("/api/nat-detect/advanced", ...)\<close> and \<open>apiResponse.json()\<close> give the
  client: a rejection of either with its message, or a response with status, status
  text and parsed JSON body.
\<close>

datatype FetchOutcome =
    FetchRejected string
  | FetchResponse nat string AdvancedDetectionResponse

text \<open>
  The error result built in the \<open>catch\<close> block of \<open>detectNATAdvanced\<close>, and the
  function itself (lib/nat-detection/advanced-detector.ts). \<open>api\<close> is the \<open>fetch\<close>
  call as a function of the request it sends; the two clock readings are inputs.
\<close>

definition advanced_error :: "int \<Rightarrow> int \<Rightarrow> string \<Rightarrow> DetectionResult" where
  "advanced_error started completed msg =
     \<lparr>state = ERROR, natType = None, startedAt = started, completedAt = Some completed,
      durationMs = Some (completed - started), ipInfo = None, portMapping = None,
      error = Some (UNKNOWN, msg), successfulSTUNServer = None, confidence = None,
      confidenceReason = None, detectionMethod = Some advanced\<rparr>"

definition detectNATAdvanced ::
  "int \<Rightarrow> int \<Rightarrow> bool \<Rightarrow> (nat \<times> IceEvent) list
     \<Rightarrow> (AdvancedDetectionRequest \<Rightarrow> FetchOutcome) \<Rightarrow> DetectionResult" where
  "detectNATAdvanced started completed rtcAvailable events api =
     (case detectNAT rtcAvailable events of
        Inl msg \<Rightarrow> advanced_error started completed msg
      | Inr basicResult \<Rightarrow>
          if \<not> truthy_str (publicIP (basic_ipInfo basicResult)) \<or>
             publicPort (basic_ipInfo basicResult) = None \<or>
             publicPort (basic_ipInfo basicResult) = Some 0
          then advanced_error started completed
                 ''Failed to get public IP/port from basic detection''
          else
            (case api \<lparr>req_publicIP = the (publicIP (basic_ipInfo basicResult)),
                       req_publicPort = the (publicPort (basic_ipInfo basicResult)),
                       req_localIP = localIP (basic_ipInfo basicResult)\<rparr> of
               FetchRejected msg \<Rightarrow> advanced_error started completed msg
             | FetchResponse status statusText advancedData \<Rightarrow>
                 if \<not> (200 \<le> status \<and> status \<le> 299) then
                   advanced_error started completed
                     (''Server API returned '' @ string_of_nat status @ '': '' @ statusText)
                 else if \<not> success advancedData then
                   advanced_error started completed
                     (if truthy_str (resp_error advancedData)
                      then the (resp_error advancedData)
                      else ''Advanced detection failed on server'')
                 else
                   \<lparr>state = SUCCESS,
                    natType = Some (case resp_natType advancedData of
                                      None \<Rightarrow> CONE_NAT | Some t \<Rightarrow> t),
                    startedAt = started,
                    completedAt = Some completed,
                    durationMs = Some (completed - started),
                    ipInfo = Some (basic_ipInfo basicResult),
                    portMapping = Some (basic_portMapping basicResult),
                    error = None,
                    successfulSTUNServer = Some ''Advanced Detection (RFC 5780)'',
                    confidence = resp_confidence advancedData,
                    confidenceReason = resp_confidenceReason advancedData,
                    detectionMethod = Some advanced\<rparr>))"

text \<open>
  The \<open>fetch\<close> call when the route of this repository answers it: the request is
  the JSON body of a \<open>POST\<close>.
\<close>

definition statusText_of :: "nat \<Rightarrow> string" where
  "statusText_of status =
     (if status = 200 then ''OK'' else if status = 400 then ''Bad Request''
      else ''Internal Server Error'')"

definition route_api :: "AdvancedDetectionRequest \<Rightarrow> FetchOutcome" where
  "route_api req =
     (case POST (Inr \<lparr>body_publicIP = Some (req_publicIP req),
                      body_publicPort = Some (req_publicPort req),
                      body_localIP = Some (req_localIP req)\<rparr>) of
        (status, body) \<Rightarrow> FetchResponse status (statusText_of status) body)"

text \<open>
  \<open>runDetection\<close> of the hook \<open>useNATDetection\<close>: the result handed to
  \<open>setResult\<close> when the run ends. \<open>errorType_of\<close> is the chain that maps the raw
  error message to \<open>DetectionError\<close>.
\<close>

definition errorType_of :: "string \<Rightarrow> DetectionError" where
  "errorType_of rawErrorMessage =
     (if rawErrorMessage = ''TIMEOUT'' \<or> str_includes rawErrorMessage ''timeout''
      then TIMEOUT
      else if rawErrorMessage = ''STUN_UNREACHABLE'' \<or> str_includes rawErrorMessage ''failed''
      then STUN_UNREACHABLE
      else if str_includes rawErrorMessage ''unsupported'' \<or>
              str_includes rawErrorMessage ''RTCPeerConnection''
      then BROWSER_UNSUPPORTED
      else if str_includes rawErrorMessage ''permission'' then PERMISSION_DENIED
      else UNKNOWN)"

definition runDetection ::
  "bool \<Rightarrow> int \<Rightarrow> int \<Rightarrow> bool \<Rightarrow> (nat \<times> IceEvent) list
     \<Rightarrow> (AdvancedDetectionRequest \<Rightarrow> FetchOutcome) \<Rightarrow> DetectionResult" where
  "runDetection isAdvancedAvailable started completed rtcAvailable events api =
     (if isAdvancedAvailable
      then detectNATAdvanced started completed rtcAvailable events api
      else (case detectNAT rtcAvailable events of
              Inr r \<Rightarrow>
                \<lparr>state = SUCCESS,
                 natType = Some (classifyNAT (basic_ipInfo r) (basic_portMapping r)),
                 startedAt = started,
                 completedAt = Some completed,
                 durationMs = Some (completed - started),
                 ipInfo = Some (basic_ipInfo r),
                 portMapping = Some (basic_portMapping r),
                 error = None,
                 successfulSTUNServer = Some (successfulServer r),
                 confidence = Some (basic_confidence r),
                 confidenceReason = Some (basic_confidenceReason r),
                 detectionMethod = Some basic\<rparr>
            | Inl rawErrorMessage \<Rightarrow>
                \<lparr>state = ERROR, natType = None, startedAt = started,
                 completedAt = Some completed, durationMs = Some (completed - started),
                 ipInfo = None, portMapping = None,
                 error = Some (errorType_of rawErrorMessage, rawErrorMessage),
                 successfulSTUNServer = None, confidence = None, confidenceReason = None,
                 detectionMethod = None\<rparr>))"

section \<open>Reference notions and sample inputs for the mapping analyzer\<close>

text \<open>
  An entry is invalid when its address (\<open>address\<close>, or \<open>ip\<close> when \<open>address\<close> is
  empty or absent) is empty or missing, or its port is zero. A port that is missing
  altogether (\<open>null\<close>) is falsy like zero and counts as invalid as well. The valid
  entries of a measurement are its \<open>srflx\<close> candidates that are not invalid, and
  \<open>entry_mapping\<close> is the (external IP, external port) pair of a valid entry.
\<close>

definition invalid_entry :: "RTCIceCandidate \<Rightarrow> bool" where
  "invalid_entry c =
     (or_str (address c) (ip c) = None \<or> or_str (address c) (ip c) = Some [] \<or>
      port c = None \<or> port c = Some 0)"

definition valid_entries :: "RTCIceCandidate list \<Rightarrow> RTCIceCandidate list" where
  "valid_entries candidates =
     filter (\<lambda>c. \<not> invalid_entry c) (filter (\<lambda>c. ctype c = Some srflx) candidates)"

definition entry_mapping :: "RTCIceCandidate \<Rightarrow> string \<times> nat" where
  "entry_mapping c = (the (or_str (address c) (ip c)), the (port c))"

definition ex_host :: RTCIceCandidate where
  "ex_host = \<lparr>ctype = Some host,
     candidate = ''candidate:1 1 UDP 2130706431 192.168.1.5 54321 typ host'',
     address = Some ''192.168.1.5'', ip = None, port = Some 54321\<rparr>"

definition ex_srflx :: "nat \<Rightarrow> RTCIceCandidate" where
  "ex_srflx p = \<lparr>ctype = Some srflx,
     candidate = ''candidate:2 1 UDP 1694498815 203.0.113.10 '' @ string_of_nat p @ '' typ srflx'',
     address = Some ''203.0.113.10'', ip = None, port = Some p\<rparr>"

section \<open>Reference notions for the orchestrator\<close>

text \<open>
  The verdict of an answer of the route: everything but the description texts of the
  four tests, that is \<open>success\<close>, the NAT type, the confidence with its reason, and the
  \<open>passed\<close> flags of Tests I to IV.
\<close>

definition verdict_of ::
  "AdvancedDetectionResponse \<Rightarrow>
     bool \<times> NATType option \<times> DetectionConfidence option \<times> string option \<times> bool list option" where
  "verdict_of r =
     (success r, resp_natType r, resp_confidence r, resp_confidenceReason r,
      map_option (\<lambda>t. [passed (test1 t), passed (test2 t), passed (test3 t), passed (test4 t)])
        (tests r))"

section \<open>Reference notions for the local probe\<close>

text \<open>
  Whether a run ever produced a local (host) mapping, and whether it ever produced an
  external (\<open>srflx\<close>) mapping: some candidate event of the run carries one.
\<close>

definition host_produced :: "(nat \<times> IceEvent) list \<Rightarrow> bool" where
  "host_produced events =
     list_ex (\<lambda>(t, ev). case ev of OnIceCandidate c \<Rightarrow> ctype c = Some host | _ \<Rightarrow> False) events"

definition external_produced :: "(nat \<times> IceEvent) list \<Rightarrow> bool" where
  "external_produced events =
     list_ex (\<lambda>(t, ev). case ev of OnIceCandidate c \<Rightarrow> ctype c = Some srflx | _ \<Rightarrow> False) events"

section \<open>Reference notions and sample inputs for the codec and the server\<close>

text \<open>
  Some attribute's declared length runs past the end of the buffer: walking the
  attributes as the parser does, from offset 20, some attribute header announces more
  value bytes than the buffer holds behind it.
\<close>

function attributeOverruns :: "Buffer \<Rightarrow> nat \<Rightarrow> nat \<Rightarrow> bool" where
  "attributeOverruns buffer len offset =
     (if offset < length buffer \<and> offset < 20 + len \<and> offset + 4 \<le> length buffer then
        (case readUInt16BE buffer (offset + 2) of
           None \<Rightarrow> False
         | Some attrLength \<Rightarrow>
             offset + 4 + attrLength > length buffer \<or>
             attributeOverruns buffer len (offset + (4 + ((attrLength + 3) div 4) * 4)))
      else False)"
  by pat_completeness auto
termination
  by (relation "measure (\<lambda>(buffer, len, offset). length buffer - offset)") auto

declare attributeOverruns.simps [simp del]

definition declared_attribute_overrun :: "Buffer \<Rightarrow> bool" where
  "declared_attribute_overrun buffer =
     (case readUInt16BE buffer 2 of
        None \<Rightarrow> False
      | Some len \<Rightarrow> attributeOverruns buffer len 20)"

text \<open>
  A binding request whose only attribute (type 3) declares 8 value bytes, none of which
  is in the buffer.
\<close>

definition truncated_request :: Buffer where
  "truncated_request =
     [0x00, 0x01, 0x00, 0x08, 0x21, 0x12, 0xA4, 0x42,
      0x01, 0x02, 0x03, 0x04, 0x05, 0x06, 0x07, 0x08, 0x09, 0x0A, 0x0B, 0x0C,
      0x00, 0x03, 0x00, 0x08]"

text \<open>
  A valid IPv4 address: the dotted text of four octets, each between 0 and 255.
  Undoing the obfuscation of an XOR-MAPPED-ADDRESS value: the port field and the four
  address bytes are XORed again with the upper half and with the bytes of the magic
  cookie.
\<close>

definition valid_ipv4 :: "string \<Rightarrow> int list \<Rightarrow> bool" where
  "valid_ipv4 addr octets =
     (length octets = 4 \<and> list_all (\<lambda>a. 0 \<le> a \<and> a \<le> 255) octets \<and>
      map Number_str (split_on CHR ''.'' addr) = map Some octets)"

definition unxor_port :: "Buffer \<Rightarrow> int" where
  "unxor_port v =
     js_xor (map_option int (readUInt16BE v 2))
       (Some (js_sar (Some (int STUN_MAGIC_COOKIE)) 16))"

definition unxor_address :: "Buffer \<Rightarrow> int list" where
  "unxor_address v =
     map (\<lambda>i. js_xor (map_option uint (at v (4 + i))) (at magicBytes i)) [0..<4]"

text \<open>The usual dotted text of four octets.\<close>

definition dotted :: "nat \<Rightarrow> nat \<Rightarrow> nat \<Rightarrow> nat \<Rightarrow> string" where
  "dotted a b c d = join ''.'' (map string_of_nat [a, b, c, d])"

text \<open>
  A binding request carrying CHANGE-REQUEST with only the change-port flag set, and the
  client it comes from.
\<close>

definition sample_tid :: Buffer where
  "sample_tid = [0x01, 0x02, 0x03, 0x04, 0x05, 0x06, 0x07, 0x08, 0x09, 0x0A, 0x0B, 0x0C]"

definition change_port_request :: Buffer where
  "change_port_request =
     [0x00, 0x01, 0x00, 0x08, 0x21, 0x12, 0xA4, 0x42] @ sample_tid @
     [0x00, 0x03, 0x00, 0x04, 0x00, 0x00, 0x00, 0x02]"

definition sample_client :: RemoteInfo where
  "sample_client = \<lparr>raddress = ''203.0.113.10'', rport = 40000\<rparr>"

section \<open>Properties of the classifier\<close>

text \<open>
  C1. Whenever both address-range flags are set the classifier answers
  \<open>MULTIPLE_LAYERS\<close>, and whenever both are clear it answers \<open>NO_NAT\<close>; the port
  mapping record (both consistency flags and the list of observed mappings) is
  arbitrary in either case, so it has no influence on these two verdicts.
\<close>

theorem classifyNAT_layering_precedes_mapping:
  "(isBehindLocalNAT info \<and> isBehindCGNAT info
      \<longrightarrow> classifyNAT info mapping = MULTIPLE_LAYERS) \<and>
   (\<not> isBehindLocalNAT info \<and> \<not> isBehindCGNAT info
      \<longrightarrow> classifyNAT info mapping = NO_NAT)"
  by (simp add: classifyNAT_def)

theorem classifyNAT_layering_precedes_mapping_witness:
  "classifyNAT
     \<lparr>localIP = ''192.168.1.5'', publicIP = Some ''100.64.0.9'', publicPort = Some 40000,
      isBehindLocalNAT = True, isBehindCGNAT = True\<rparr>
     \<lparr>isPortConsistent = False, isIPConsistent = True,
      observedMappings = [(''100.64.0.9'', 40000), (''100.64.0.9'', 40001)]\<rparr>
     = MULTIPLE_LAYERS \<and>
   classifyNAT
     \<lparr>localIP = ''8.8.8.8'', publicIP = Some ''8.8.8.8'', publicPort = Some 40000,
      isBehindLocalNAT = False, isBehindCGNAT = False\<rparr>
     \<lparr>isPortConsistent = False, isIPConsistent = False,
      observedMappings = [(''8.8.8.8'', 40000), (''8.8.4.4'', 40001)]\<rparr>
     = NO_NAT"
  using classifyNAT_layering_precedes_mapping
      [of "\<lparr>localIP = ''192.168.1.5'', publicIP = Some ''100.64.0.9'', publicPort = Some 40000,
             isBehindLocalNAT = True, isBehindCGNAT = True\<rparr>"
          "\<lparr>isPortConsistent = False, isIPConsistent = True,
             observedMappings = [(''100.64.0.9'', 40000), (''100.64.0.9'', 40001)]\<rparr>"]
    classifyNAT_layering_precedes_mapping
      [of "\<lparr>localIP = ''8.8.8.8'', publicIP = Some ''8.8.8.8'', publicPort = Some 40000,
             isBehindLocalNAT = False, isBehindCGNAT = False\<rparr>"
          "\<lparr>isPortConsistent = False, isIPConsistent = False,
             observedMappings = [(''8.8.8.8'', 40000), (''8.8.4.4'', 40001)]\<rparr>"]
  by simp

text \<open>
  C9, as stated: a port-inconsistent mapping always classifies as \<open>SYMMETRIC\<close>.
  The address-range rules come first in the decision order, so a host with neither
  flag set is \<open>NO_NAT\<close> even when its ports are inconsistent.
\<close>

theorem classifyNAT_port_inconsistent_counterexample:
  "isPortConsistent
     \<lparr>isPortConsistent = False, isIPConsistent = True,
      observedMappings = [(''8.8.8.8'', 40000), (''8.8.8.8'', 40001)]\<rparr> = False \<and>
   classifyNAT
     \<lparr>localIP = ''8.8.8.8'', publicIP = Some ''8.8.8.8'', publicPort = Some 40000,
      isBehindLocalNAT = False, isBehindCGNAT = False\<rparr>
     \<lparr>isPortConsistent = False, isIPConsistent = True,
      observedMappings = [(''8.8.8.8'', 40000), (''8.8.8.8'', 40001)]\<rparr>
     \<noteq> SYMMETRIC"
  by (simp add: classifyNAT_def)

text \<open>
  C9, amended: when neither address-range rule applies (exactly one of the two flags
  is set) and the ports are not consistent, the verdict is \<open>SYMMETRIC\<close>, whatever
  the IP-consistency flag says.
\<close>

theorem classifyNAT_port_inconsistent_symmetric:
  "isBehindLocalNAT info \<noteq> isBehindCGNAT info \<Longrightarrow>
   \<not> isPortConsistent mapping \<Longrightarrow>
   classifyNAT info mapping = SYMMETRIC"
  by (auto simp add: classifyNAT_def)

theorem classifyNAT_port_inconsistent_symmetric_witness:
  "classifyNAT
     \<lparr>localIP = ''192.168.1.5'', publicIP = Some ''203.0.113.10'', publicPort = Some 40000,
      isBehindLocalNAT = True, isBehindCGNAT = False\<rparr>
     \<lparr>isPortConsistent = False, isIPConsistent = True,
      observedMappings = [(''203.0.113.10'', 40000), (''203.0.113.10'', 40001)]\<rparr>
     = SYMMETRIC"
  using classifyNAT_port_inconsistent_symmetric
      [of "\<lparr>localIP = ''192.168.1.5'', publicIP = Some ''203.0.113.10'',
             publicPort = Some 40000, isBehindLocalNAT = True, isBehindCGNAT = False\<rparr>"
          "\<lparr>isPortConsistent = False, isIPConsistent = True,
             observedMappings = [(''203.0.113.10'', 40000), (''203.0.113.10'', 40001)]\<rparr>"]
  by simp

section \<open>Properties of the mapping analyzer\<close>

lemma valid_mapping_iff: "valid_mapping c = (if invalid_entry c then None else Some (entry_mapping c))"
  by (auto simp add: valid_mapping_def invalid_entry_def entry_mapping_def truthy_str_def Let_def
      split: option.splits)

lemma srflx_mappings_valid_entries:
  "srflx_mappings candidates = map entry_mapping (valid_entries candidates)"
  unfolding srflx_mappings_def valid_entries_def
  by (induction candidates) (simp_all add: List.map_filter_simps valid_mapping_iff)

lemma remdups_le_one_iff:
  "length (remdups xs) \<le> 1 \<longleftrightarrow> (\<forall>x\<in>set xs. \<forall>y\<in>set xs. x = y)"
proof -
  have "length (remdups xs) = card (set xs)" by (simp add: length_remdups_card_conv)
  then show ?thesis using card_le_Suc0_iff_eq [of "set xs"] by simp
qed

lemma observedMappings_analyze:
  "observedMappings (analyzePortMapping candidates) = srflx_mappings candidates"
  by (simp add: analyzePortMapping_def Let_def)

text \<open>
  C2. The observed mappings of the analysis are exactly the valid entries (invalid ones
  are discarded first). With no valid entry both consistency flags are false, with
  exactly one both are true, and in both cases the confidence is low; with two or more
  the port flag holds iff all valid entries have the same port, the IP flag holds iff
  all have the same external address, and the confidence is high. The confidence and
  the analysis of a finished run are these values.
\<close>

theorem analyzePortMapping_by_valid_count:
  "observedMappings (analyzePortMapping candidates) = map entry_mapping (valid_entries candidates) \<and>
   (length (valid_entries candidates) = 0 \<longrightarrow>
      \<not> isPortConsistent (analyzePortMapping candidates) \<and>
      \<not> isIPConsistent (analyzePortMapping candidates) \<and>
      confidence_of (analyzePortMapping candidates) = low) \<and>
   (length (valid_entries candidates) = 1 \<longrightarrow>
      isPortConsistent (analyzePortMapping candidates) \<and>
      isIPConsistent (analyzePortMapping candidates) \<and>
      confidence_of (analyzePortMapping candidates) = low) \<and>
   (2 \<le> length (valid_entries candidates) \<longrightarrow>
      (isPortConsistent (analyzePortMapping candidates) \<longleftrightarrow>
         (\<forall>c\<in>set (valid_entries candidates). \<forall>c'\<in>set (valid_entries candidates).
            the (port c) = the (port c'))) \<and>
      (isIPConsistent (analyzePortMapping candidates) \<longleftrightarrow>
         (\<forall>c\<in>set (valid_entries candidates). \<forall>c'\<in>set (valid_entries candidates).
            the (or_str (address c) (ip c)) = the (or_str (address c') (ip c')))) \<and>
      confidence_of (analyzePortMapping candidates) = high) \<and>
   (\<forall>r. finishGathering candidates = Inr r \<longrightarrow>
      probe_portMapping r = analyzePortMapping candidates \<and>
      probe_confidence r = confidence_of (analyzePortMapping candidates))"
proof -
  let ?ms = "srflx_mappings candidates"
  let ?vs = "valid_entries candidates"
  have ms: "?ms = map entry_mapping ?vs" by (rule srflx_mappings_valid_entries)
  have len: "length ?ms = length ?vs" by (simp add: ms)
  have obs: "observedMappings (analyzePortMapping candidates) = map entry_mapping ?vs"
    by (simp add: observedMappings_analyze ms)
  have zero: "length ?vs = 0 \<longrightarrow>
      \<not> isPortConsistent (analyzePortMapping candidates) \<and>
      \<not> isIPConsistent (analyzePortMapping candidates) \<and>
      confidence_of (analyzePortMapping candidates) = low"
  proof
    assume "length ?vs = 0"
    then have "length ?ms = 0" using len by simp
    then show "\<not> isPortConsistent (analyzePortMapping candidates) \<and>
      \<not> isIPConsistent (analyzePortMapping candidates) \<and>
      confidence_of (analyzePortMapping candidates) = low"
      by (simp add: analyzePortMapping_def confidence_of_def Let_def)
  qed
  have one: "length ?vs = 1 \<longrightarrow>
      isPortConsistent (analyzePortMapping candidates) \<and>
      isIPConsistent (analyzePortMapping candidates) \<and>
      confidence_of (analyzePortMapping candidates) = low"
  proof
    assume "length ?vs = 1"
    then have "length ?ms = 1" using len by simp
    then show "isPortConsistent (analyzePortMapping candidates) \<and>
      isIPConsistent (analyzePortMapping candidates) \<and>
      confidence_of (analyzePortMapping candidates) = low"
      by (auto simp add: analyzePortMapping_def confidence_of_def Let_def)
  qed
  have ports: "(\<forall>x\<in>set (map snd ?ms). \<forall>y\<in>set (map snd ?ms). x = y) \<longleftrightarrow>
      (\<forall>c\<in>set ?vs. \<forall>c'\<in>set ?vs. the (port c) = the (port c'))"
    by (simp add: ms entry_mapping_def)
  have ips: "(\<forall>x\<in>set (map fst ?ms). \<forall>y\<in>set (map fst ?ms). x = y) \<longleftrightarrow>
      (\<forall>c\<in>set ?vs. \<forall>c'\<in>set ?vs.
         the (or_str (address c) (ip c)) = the (or_str (address c') (ip c')))"
    by (simp add: ms entry_mapping_def)
  have many: "2 \<le> length ?vs \<longrightarrow>
      (isPortConsistent (analyzePortMapping candidates) \<longleftrightarrow>
         (\<forall>c\<in>set ?vs. \<forall>c'\<in>set ?vs. the (port c) = the (port c'))) \<and>
      (isIPConsistent (analyzePortMapping candidates) \<longleftrightarrow>
         (\<forall>c\<in>set ?vs. \<forall>c'\<in>set ?vs.
            the (or_str (address c) (ip c)) = the (or_str (address c') (ip c')))) \<and>
      confidence_of (analyzePortMapping candidates) = high"
  proof
    assume two: "2 \<le> length ?vs"
    then have l2: "2 \<le> length ?ms" using len by simp
    then have ne: "?ms \<noteq> []" "length ?ms \<noteq> 1" by auto
    from l2 ne have pc: "isPortConsistent (analyzePortMapping candidates) =
        (length (remdups (map snd ?ms)) \<le> 1)"
      by (simp add: analyzePortMapping_def Let_def)
    from l2 ne have ic: "isIPConsistent (analyzePortMapping candidates) =
        (length (remdups (map fst ?ms)) \<le> 1)"
      by (simp add: analyzePortMapping_def Let_def)
    from l2 have cf: "confidence_of (analyzePortMapping candidates) = high"
      by (simp add: confidence_of_def observedMappings_analyze Let_def)
    show "(isPortConsistent (analyzePortMapping candidates) \<longleftrightarrow>
         (\<forall>c\<in>set ?vs. \<forall>c'\<in>set ?vs. the (port c) = the (port c'))) \<and>
      (isIPConsistent (analyzePortMapping candidates) \<longleftrightarrow>
         (\<forall>c\<in>set ?vs. \<forall>c'\<in>set ?vs.
            the (or_str (address c) (ip c)) = the (or_str (address c') (ip c')))) \<and>
      confidence_of (analyzePortMapping candidates) = high"
      using pc ic cf ports ips by (simp only: remdups_le_one_iff)
  qed
  have fin: "\<forall>r. finishGathering candidates = Inr r \<longrightarrow>
      probe_portMapping r = analyzePortMapping candidates \<and>
      probe_confidence r = confidence_of (analyzePortMapping candidates)"
    by (auto simp add: finishGathering_def Let_def split: sum.splits)
  from obs zero one many fin show ?thesis by blast
qed

theorem analyzePortMapping_by_valid_count_witness:
  "valid_entries [ex_host, ex_srflx 40000, ex_srflx 0, ex_srflx 40001] =
     [ex_srflx 40000, ex_srflx 40001] \<and>
   observedMappings (analyzePortMapping [ex_host, ex_srflx 40000, ex_srflx 0, ex_srflx 40001]) =
     [(''203.0.113.10'', 40000), (''203.0.113.10'', 40001)] \<and>
   isPortConsistent (analyzePortMapping [ex_host, ex_srflx 40000, ex_srflx 0, ex_srflx 40001])
     = False \<and>
   isIPConsistent (analyzePortMapping [ex_host, ex_srflx 40000, ex_srflx 0, ex_srflx 40001])
     = True \<and>
   confidence_of (analyzePortMapping [ex_host, ex_srflx 40000, ex_srflx 0, ex_srflx 40001])
     = high"
proof -
  have v: "valid_entries [ex_host, ex_srflx 40000, ex_srflx 0, ex_srflx 40001] =
     [ex_srflx 40000, ex_srflx 40001]"
    by (simp add: valid_entries_def invalid_entry_def ex_host_def ex_srflx_def or_str_def
        truthy_str_def)
  show ?thesis
    using analyzePortMapping_by_valid_count
      [of "[ex_host, ex_srflx 40000, ex_srflx 0, ex_srflx 40001]"]
    unfolding v
    by (simp add: entry_mapping_def ex_srflx_def or_str_def truthy_str_def)
qed

section \<open>Properties of the orchestrator\<close>



lemma performAdvancedTests_verdict:
  "verdict_of (performAdvancedTests req) =
     (True, Some PORT_RESTRICTED_CONE, Some high,
      Some ''High confidence: Did not receive response from different IP:port combination'',
      Some [True, False, False, True])"
  by (simp add: verdict_of_def performAdvancedTests_def resolveTests_def Let_def)

text \<open>
  C10. Every request gets \<open>success = true\<close>, Tests I and IV passed, Tests II and III
  not passed, NAT type \<open>PORT_RESTRICTED_CONE\<close> and confidence \<open>high\<close>; any two
  requests get the same verdict, and so does every valid body sent to \<open>POST\<close>
  (status 200). Only the description text of Test I repeats the request's address.
\<close>

theorem performAdvancedTests_input_independent:
  "success (performAdvancedTests req) = True \<and>
   map_option (\<lambda>t. [passed (test1 t), passed (test2 t), passed (test3 t), passed (test4 t)])
     (tests (performAdvancedTests req)) = Some [True, False, False, True] \<and>
   resp_natType (performAdvancedTests req) = Some PORT_RESTRICTED_CONE \<and>
   resp_confidence (performAdvancedTests req) = Some high \<and>
   verdict_of (performAdvancedTests req) = verdict_of (performAdvancedTests req') \<and>
   (truthy_str (body_publicIP body) \<and> body_publicPort body = Some p \<and> p \<noteq> 0 \<longrightarrow>
      fst (POST (Inr body)) = 200 \<and>
      verdict_of (snd (POST (Inr body))) = verdict_of (performAdvancedTests req))"
  by (simp add: performAdvancedTests_verdict POST_def)
     (simp add: verdict_of_def performAdvancedTests_def resolveTests_def Let_def)

theorem performAdvancedTests_input_independent_witness:
  "resp_natType (performAdvancedTests
      \<lparr>req_publicIP = ''203.0.113.10'', req_publicPort = 40000, req_localIP = ''192.168.1.5''\<rparr>)
     = Some PORT_RESTRICTED_CONE \<and>
   verdict_of (performAdvancedTests
      \<lparr>req_publicIP = ''203.0.113.10'', req_publicPort = 40000, req_localIP = ''192.168.1.5''\<rparr>) =
   verdict_of (performAdvancedTests
      \<lparr>req_publicIP = ''8.8.8.8'', req_publicPort = 53, req_localIP = ''8.8.8.8''\<rparr>) \<and>
   fst (POST (Inr \<lparr>body_publicIP = Some ''8.8.8.8'', body_publicPort = Some 53,
                    body_localIP = None\<rparr>)) = 200 \<and>
   verdict_of (snd (POST (Inr \<lparr>body_publicIP = Some ''8.8.8.8'', body_publicPort = Some 53,
                    body_localIP = None\<rparr>))) =
   verdict_of (performAdvancedTests
      \<lparr>req_publicIP = ''203.0.113.10'', req_publicPort = 40000, req_localIP = ''192.168.1.5''\<rparr>)"
  using performAdvancedTests_input_independent
      [of "\<lparr>req_publicIP = ''203.0.113.10'', req_publicPort = 40000,
             req_localIP = ''192.168.1.5''\<rparr>"
          "\<lparr>req_publicIP = ''8.8.8.8'', req_publicPort = 53, req_localIP = ''8.8.8.8''\<rparr>"
          "\<lparr>body_publicIP = Some ''8.8.8.8'', body_publicPort = Some 53, body_localIP = None\<rparr>"
          53]
  by (simp add: truthy_str_def)

section \<open>Properties of the local probe\<close>

lemma find_None_list_ex: "(find P xs = None) = (\<not> list_ex P xs)"
  by (induction xs) simp_all

lemma extractIPInfo_Inl:
  "extractIPInfo cs = Inl e \<longleftrightarrow>
     \<not> list_ex (\<lambda>c. ctype c = Some host) cs \<and> e = ''No host candidate found''"
proof (cases "find (\<lambda>c. ctype c = Some host) cs")
  case None
  then show ?thesis using find_None_list_ex [of "\<lambda>c. ctype c = Some host" cs]
    by (auto simp add: extractIPInfo_def)
next
  case (Some h)
  then have "list_ex (\<lambda>c. ctype c = Some host) cs"
    using find_None_list_ex [of "\<lambda>c. ctype c = Some host" cs] by simp
  then show ?thesis using Some by (simp add: extractIPInfo_def Let_def)
qed

lemma finishGathering_Inl:
  "finishGathering cs = Inl e \<longleftrightarrow>
     \<not> list_ex (\<lambda>c. ctype c = Some host) cs \<and> e = ''No host candidate found''"
proof (cases "extractIPInfo cs")
  case (Inl m)
  then show ?thesis using extractIPInfo_Inl [of cs m] by (auto simp add: finishGathering_def)
next
  case (Inr i)
  then have "list_ex (\<lambda>c. ctype c = Some host) cs"
    using extractIPInfo_Inl [of cs "''No host candidate found''"] by auto
  then show ?thesis using Inr by (simp add: finishGathering_def Let_def)
qed

lemma finishGathering_Inr:
  "(\<exists>r. finishGathering cs = Inr r) \<longleftrightarrow> list_ex (\<lambda>c. ctype c = Some host) cs"
proof (cases "finishGathering cs")
  case (Inl e) then show ?thesis using finishGathering_Inl [of cs e] by simp
next
  case (Inr r) then show ?thesis using finishGathering_Inl [of cs]
    by (metis Inl_Inr_False)
qed

lemma includes_timeout_facts:
  "str_includes ''Detection timeout'' ''timeout''"
  "\<not> str_includes ''No host candidate found'' ''timeout''"
  by simp_all

lemma detectNAT_finished:
  assumes "gather TOTAL_TIMEOUT [] [] events = FinishGathering cs"
  shows "list_ex (\<lambda>c. ctype c = Some host) cs \<Longrightarrow> \<exists>r. detectNAT True events = Inr r"
    and "\<not> list_ex (\<lambda>c. ctype c = Some host) cs \<Longrightarrow>
           detectNAT True events = Inl ''STUN_UNREACHABLE''"
proof -
  assume "list_ex (\<lambda>c. ctype c = Some host) cs"
  then obtain r where "finishGathering cs = Inr r" using finishGathering_Inr [of cs] by blast
  then show "\<exists>r. detectNAT True events = Inr r"
    using assms by (simp add: detectNAT_def detectWithMultipleServers_def)
next
  assume "\<not> list_ex (\<lambda>c. ctype c = Some host) cs"
  then have "finishGathering cs = Inl ''No host candidate found''"
    using finishGathering_Inl [of cs "''No host candidate found''"] by simp
  then show "detectNAT True events = Inl ''STUN_UNREACHABLE''"
    using assms by (simp add: detectNAT_def detectWithMultipleServers_def)
qed

lemma detectNAT_not_finished:
  "gather TOTAL_TIMEOUT [] [] events = CeilingFired \<Longrightarrow>
     detectNAT True events = Inl ''TIMEOUT''"
  "gather TOTAL_TIMEOUT [] [] events = StartFailed msg \<Longrightarrow>
     detectNAT True events =
       (if str_includes msg ''timeout'' then Inl ''TIMEOUT'' else Inl ''STUN_UNREACHABLE'')"
  by (simp_all add: detectNAT_def detectWithMultipleServers_def)

subsection \<open>Sample runs\<close>

lemmas js_defs = or_str_def truthy_str_def endsWith_def matches_digits_dots_def is_digit_def
  Number_str_def digit_val_def isPrivateIP_def isCGNATIP_def string_of_nat.simps

lemma ex_host_ip: "extractIPFromCandidate ex_host = Some ''192.168.1.5''"
  by (simp add: extractIPFromCandidate_def ex_host_def js_defs Let_def)

lemma ex_srflx_ip: "extractIPFromCandidate (ex_srflx 40000) = Some ''203.0.113.10''"
  by (simp add: extractIPFromCandidate_def ex_srflx_def js_defs Let_def)

lemma extractIPInfo_host_srflx: "extractIPInfo [ex_host, ex_srflx 40000] =
   Inr \<lparr>localIP = ''192.168.1.5'', publicIP = Some ''203.0.113.10'',
          publicPort = Some 40000, isBehindLocalNAT = True,
          isBehindCGNAT = False\<rparr>"
  by (simp add: extractIPInfo_def ex_host_ip ex_srflx_ip Let_def js_defs)
     (simp add: ex_host_def ex_srflx_def)

lemma extractIPInfo_host: "extractIPInfo [ex_host] =
   Inr \<lparr>localIP = ''192.168.1.5'', publicIP = None,
          publicPort = None, isBehindLocalNAT = True,
          isBehindCGNAT = False\<rparr>"
  by (simp add: extractIPInfo_def ex_host_ip Let_def js_defs)
     (simp add: ex_host_def)

lemma srflx_mappings_host_srflx: "srflx_mappings [ex_host, ex_srflx 40000] = [(''203.0.113.10'', 40000)]"
  by (simp add: srflx_mappings_def valid_mapping_def ex_host_def ex_srflx_def js_defs
      List.map_filter_simps)

lemma srflx_mappings_host: "srflx_mappings [ex_host] = []"
  by (simp add: srflx_mappings_def ex_host_def List.map_filter_simps)

lemma analyze_host_srflx: "analyzePortMapping [ex_host, ex_srflx 40000] =
   \<lparr>isPortConsistent = True, isIPConsistent = True,
    observedMappings = [(''203.0.113.10'', 40000)]\<rparr>"
  by (simp add: analyzePortMapping_def srflx_mappings_host_srflx)

lemma analyze_host: "analyzePortMapping [ex_host] =
   \<lparr>isPortConsistent = False, isIPConsistent = False, observedMappings = []\<rparr>"
  by (simp add: analyzePortMapping_def srflx_mappings_host)

lemma finish_host_srflx: "finishGathering [ex_host, ex_srflx 40000] =
  Inr \<lparr>probe_ipInfo =
        \<lparr>localIP = ''192.168.1.5'', publicIP = Some ''203.0.113.10'',
           publicPort = Some 40000, isBehindLocalNAT = True, isBehindCGNAT = False\<rparr>,
        probe_portMapping =
          \<lparr>isPortConsistent = True, isIPConsistent = True,
             observedMappings = [(''203.0.113.10'', 40000)]\<rparr>,
        successfulServers = [''STUN server (via ICE)''],
        probe_confidence = low,
        probe_confidenceReason =
          ''Low confidence: Only 1 STUN server responded (cannot verify port consistency)''\<rparr>"
  by (simp add: finishGathering_def extractIPInfo_host_srflx analyze_host_srflx confidence_of_def confidenceReason_of_def
      string_of_nat.simps)
     (simp add: ex_host_def ex_srflx_def)

lemma finish_host: "finishGathering [ex_host] =
  Inr \<lparr>probe_ipInfo =
        \<lparr>localIP = ''192.168.1.5'', publicIP = None,
           publicPort = None, isBehindLocalNAT = True, isBehindCGNAT = False\<rparr>,
        probe_portMapping =
          \<lparr>isPortConsistent = False, isIPConsistent = False, observedMappings = []\<rparr>,
        successfulServers = [],
        probe_confidence = low,
        probe_confidenceReason =
          ''Low confidence: Only 0 STUN server responded (cannot verify port consistency)''\<rparr>"
  by (simp add: finishGathering_def extractIPInfo_host analyze_host confidence_of_def confidenceReason_of_def
      string_of_nat.simps)
     (simp add: ex_host_def)

lemma ex_ctype: "ctype ex_host = Some host" "ctype (ex_srflx p) = Some srflx"
  by (simp_all add: ex_host_def ex_srflx_def)

lemma gather_host_only: "gather TOTAL_TIMEOUT [] [] [(10, OnIceCandidate ex_host)] = CeilingFired"
  by (simp add: TOTAL_TIMEOUT_def wait_due_def ex_ctype)

lemma gather_end_only: "gather TOTAL_TIMEOUT [] [] [(10, OnIceCandidateNull)] = FinishGathering []"
  by (simp add: TOTAL_TIMEOUT_def wait_due_def)

lemma gather_host_then_end:
  "gather TOTAL_TIMEOUT [] [] [(10, OnIceCandidate ex_host), (20, OnIceCandidateNull)] =
     FinishGathering [ex_host]"
  by (simp add: TOTAL_TIMEOUT_def wait_due_def ex_ctype)

lemma gather_host_srflx:
  "gather TOTAL_TIMEOUT [] []
     [(10, OnIceCandidate ex_host), (20, OnIceCandidate (ex_srflx 40000))] =
     FinishGathering [ex_host, ex_srflx 40000]"
  by (simp add: TOTAL_TIMEOUT_def wait_due_def waitTime_def ex_ctype)

lemma detectNAT_host_only: "detectNAT True [(10, OnIceCandidate ex_host)] = Inl ''TIMEOUT''"
  unfolding detectNAT_def detectWithMultipleServers_def gather_host_only by simp

lemma detectNAT_end_without_host: "detectNAT True [(10, OnIceCandidateNull)] = Inl ''STUN_UNREACHABLE''"
  unfolding detectNAT_def detectWithMultipleServers_def gather_end_only
  by (simp add: finishGathering_def extractIPInfo_def)

lemma detectNAT_host_one_srflx: "detectNAT True [(10, OnIceCandidate ex_host), (20, OnIceCandidate (ex_srflx 40000))] =
   Inr \<lparr>basic_ipInfo =
        \<lparr>localIP = ''192.168.1.5'', publicIP = Some ''203.0.113.10'',
           publicPort = Some 40000, isBehindLocalNAT = True, isBehindCGNAT = False\<rparr>,
        basic_portMapping =
          \<lparr>isPortConsistent = True, isIPConsistent = True,
             observedMappings = [(''203.0.113.10'', 40000)]\<rparr>,
        successfulServer = ''STUN server (via ICE)'',
        basic_confidence = low,
        basic_confidenceReason =
          ''Low confidence: Only 1 STUN server responded (cannot verify port consistency)''\<rparr>"
  unfolding detectNAT_def detectWithMultipleServers_def gather_host_srflx by (simp add: finish_host_srflx)

subsection \<open>Error codes of the probe\<close>

text \<open>
  C8 at a run with a local address and no external mapping, evaluated: a host candidate
  arrives at 10 ms and the agent signals the end of candidates at 20 ms, well before the
  15000 ms ceiling. No \<open>srflx\<close> candidate was ever produced, so the probe should fail
  with \<open>STUN_UNREACHABLE\<close>. It resolves instead: \<open>detectNAT\<close> returns a result with
  no public address, an empty list of observed mappings and low confidence, and the
  basic path of \<open>runDetection\<close> reports state \<open>SUCCESS\<close> with NAT type
  \<open>SYMMETRIC\<close> and no error.
\<close>

theorem detectNAT_resolves_without_external_mapping:
  "host_produced [(10, OnIceCandidate ex_host), (20, OnIceCandidateNull)] \<and>
   \<not> external_produced [(10, OnIceCandidate ex_host), (20, OnIceCandidateNull)] \<and>
   detectNAT True [(10, OnIceCandidate ex_host), (20, OnIceCandidateNull)] =
     Inr \<lparr>basic_ipInfo =
            \<lparr>localIP = ''192.168.1.5'', publicIP = None, publicPort = None,
             isBehindLocalNAT = True, isBehindCGNAT = False\<rparr>,
          basic_portMapping =
            \<lparr>isPortConsistent = False, isIPConsistent = False, observedMappings = []\<rparr>,
          successfulServer = ''STUN (via ICE)'',
          basic_confidence = low,
          basic_confidenceReason =
            ''Low confidence: Only 0 STUN server responded (cannot verify port consistency)''\<rparr> \<and>
   detectNAT True [(10, OnIceCandidate ex_host), (20, OnIceCandidateNull)] \<noteq>
     Inl ''STUN_UNREACHABLE'' \<and>
   state (runDetection False 0 20 True
            [(10, OnIceCandidate ex_host), (20, OnIceCandidateNull)] route_api) = SUCCESS \<and>
   natType (runDetection False 0 20 True
            [(10, OnIceCandidate ex_host), (20, OnIceCandidateNull)] route_api) =
     Some SYMMETRIC \<and>
   error (runDetection False 0 20 True
            [(10, OnIceCandidate ex_host), (20, OnIceCandidateNull)] route_api) = None"
proof -
  have d: "detectNAT True [(10, OnIceCandidate ex_host), (20, OnIceCandidateNull)] =
     Inr \<lparr>basic_ipInfo =
            \<lparr>localIP = ''192.168.1.5'', publicIP = None, publicPort = None,
             isBehindLocalNAT = True, isBehindCGNAT = False\<rparr>,
          basic_portMapping =
            \<lparr>isPortConsistent = False, isIPConsistent = False, observedMappings = []\<rparr>,
          successfulServer = ''STUN (via ICE)'',
          basic_confidence = low,
          basic_confidenceReason =
            ''Low confidence: Only 0 STUN server responded (cannot verify port consistency)''\<rparr>"
    unfolding detectNAT_def detectWithMultipleServers_def gather_host_then_end
    by (simp add: finish_host)
  show ?thesis
    unfolding d
    by (simp add: runDetection_def d classifyNAT_def host_produced_def external_produced_def
        ex_ctype)
qed

text \<open>
  Two further runs. A host candidate and then silence: the ceiling fires at 15000 ms and
  the probe fails with \<open>TIMEOUT\<close>. End of candidates with nothing gathered: the probe
  fails with \<open>STUN_UNREACHABLE\<close>.
\<close>

lemma further_probe_runs:
  "detectNAT True [(10, OnIceCandidate ex_host)] = Inl ''TIMEOUT''"
  "detectNAT True [(10, OnIceCandidateNull)] = Inl ''STUN_UNREACHABLE''"
  "detectNAT False events = Inl ''BROWSER_UNSUPPORTED''"
  by (simp_all add: detectNAT_host_only detectNAT_end_without_host) (simp add: detectNAT_def)

section \<open>Confidence of a completed detection\<close>

text \<open>
  On the basic path the confidence of a result is the one the probe computed: it is
  high only when the measurement record holds at least two mappings, each of them valid
  (a non-empty address and a non-zero port).
\<close>

lemma srflx_mappings_all_valid:
  "list_all (\<lambda>(a, p). a \<noteq> [] \<and> p \<noteq> 0) (srflx_mappings candidates)"
  unfolding srflx_mappings_valid_entries valid_entries_def
  by (induction candidates)
     (auto simp add: entry_mapping_def invalid_entry_def split: option.splits)

lemma probe_confidence_high:
  assumes "finishGathering candidates = Inr r" and "probe_confidence r = high"
  shows "2 \<le> length (observedMappings (probe_portMapping r)) \<and>
         list_all (\<lambda>(a, p). a \<noteq> [] \<and> p \<noteq> 0) (observedMappings (probe_portMapping r))"
proof -
  have pm: "probe_portMapping r = analyzePortMapping candidates"
    and cf: "probe_confidence r = confidence_of (analyzePortMapping candidates)"
    using assms(1) by (auto simp add: finishGathering_def Let_def split: sum.splits)
  have "2 \<le> length (observedMappings (analyzePortMapping candidates))"
    using assms(2) cf by (simp add: confidence_of_def Let_def split: if_splits)
  then show ?thesis
    using pm srflx_mappings_all_valid [of candidates] by (simp add: observedMappings_analyze)
qed

lemma basic_path_high_confidence_needs_two:
  assumes "confidence (runDetection False started completed rtc events api) = Some high"
  shows "\<exists>pm. portMapping (runDetection False started completed rtc events api) = Some pm \<and>
           2 \<le> length (observedMappings pm) \<and>
           list_all (\<lambda>(a, p). a \<noteq> [] \<and> p \<noteq> 0) (observedMappings pm)"
proof (cases "detectNAT rtc events")
  case (Inl msg)
  then show ?thesis using assms by (simp add: runDetection_def)
next
  case (Inr b)
  then have rtc: rtc by (auto simp add: detectNAT_def split: if_splits)
  from Inr rtc obtain cs r where g: "gather TOTAL_TIMEOUT [] [] events = FinishGathering cs"
    and f: "finishGathering cs = Inr r"
    and b: "basic_portMapping b = probe_portMapping r" "basic_confidence b = probe_confidence r"
    by (auto simp add: detectNAT_def detectWithMultipleServers_def
        split: Settlement.splits sum.splits if_splits)
  from assms Inr have "basic_confidence b = high" by (simp add: runDetection_def)
  then have "probe_confidence r = high" using b by simp
  from probe_confidence_high [OF f this] show ?thesis using Inr b by (simp add: runDetection_def)
qed

text \<open>
  C7 on the advanced path, evaluated: a run that gathers a host candidate and a single
  external mapping, answered by the route of this repository, completes with state
  \<open>SUCCESS\<close> and confidence \<open>high\<close>, while its measurement record holds exactly one
  valid mapping.
\<close>

theorem advanced_path_high_confidence_one_mapping:
  "state (runDetection True 0 5020 True
     [(10, OnIceCandidate ex_host), (20, OnIceCandidate (ex_srflx 40000))] route_api) = SUCCESS \<and>
   detectionMethod (runDetection True 0 5020 True
     [(10, OnIceCandidate ex_host), (20, OnIceCandidate (ex_srflx 40000))] route_api) =
     Some advanced \<and>
   confidence (runDetection True 0 5020 True
     [(10, OnIceCandidate ex_host), (20, OnIceCandidate (ex_srflx 40000))] route_api) =
     Some high \<and>
   portMapping (runDetection True 0 5020 True
     [(10, OnIceCandidate ex_host), (20, OnIceCandidate (ex_srflx 40000))] route_api) =
     Some \<lparr>isPortConsistent = True, isIPConsistent = True,
             observedMappings = [(''203.0.113.10'', 40000)]\<rparr> \<and>
   valid_entries [ex_host, ex_srflx 40000] = [ex_srflx 40000]"
  by (simp add: runDetection_def detectNATAdvanced_def detectNAT_host_one_srflx truthy_str_def
      route_api_def POST_def performAdvancedTests_def resolveTests_def statusText_of_def Let_def
      valid_entries_def invalid_entry_def ex_ctype)
     (simp add: ex_srflx_def or_str_def truthy_str_def)

text \<open>
  The hook's chain looks for the lower-case text \<open>unsupported\<close>, so the probe's
  \<open>BROWSER_UNSUPPORTED\<close> is shown with error type \<open>UNKNOWN\<close>.
\<close>

lemma hook_maps_unsupported_to_unknown: "errorType_of ''BROWSER_UNSUPPORTED'' = UNKNOWN"
  by (simp add: errorType_of_def)


section \<open>Properties of the binding-protocol codec\<close>

subsection \<open>Parsing: when it fails\<close>

lemma parseAttributes_returns: "parseAttributes buffer len offset attrs \<noteq> None"
proof (induction buffer len offset attrs rule: parseAttributes.induct)
  case (1 buffer len offset attrs)
  show ?case
  proof (cases "offset < length buffer \<and> offset < 20 + len \<and> \<not> offset + 4 > length buffer")
    case True
    then obtain t l where r: "readUInt16BE buffer offset = Some t"
        "readUInt16BE buffer (offset + 2) = Some l"
      by (auto simp add: readUInt16BE_def)
    from True have c: "offset < length buffer \<and> offset < 20 + len"
        "\<not> length buffer < offset + 4" by simp_all
    have step: "parseAttributes buffer len offset attrs =
        parseAttributes buffer len (offset + (4 + ((l + 3) div 4) * 4))
          (attrs(t \<mapsto> subarray buffer (offset + 4) (offset + 4 + l)))"
      using c r by (subst parseAttributes.simps) (simp add: Let_def)
    have "parseAttributes buffer len (offset + (4 + ((l + 3) div 4) * 4))
          (attrs(t \<mapsto> subarray buffer (offset + 4) (offset + 4 + l))) \<noteq> None"
      using c r by (intro "1.IH") simp_all
    then show ?thesis by (simp only: step) simp
  next
    case False
    then show ?thesis by (subst parseAttributes.simps) auto
  qed
qed

lemma parse_truncated_request:
  "parseSTUNMessage truncated_request =
     Some \<lparr>msgType = 1, msgLength = 8,
           transactionId = [0x01, 0x02, 0x03, 0x04, 0x05, 0x06, 0x07, 0x08, 0x09, 0x0A, 0x0B, 0x0C],
           attributes = [3 \<mapsto> []]\<rparr>"
  by (simp add: parseSTUNMessage_def truncated_request_def readUInt16BE_def readUInt32BE_def
      STUN_MAGIC_COOKIE_def subarray_def parseAttributes.simps Let_def)

text \<open>
  C5, as stated: parsing fails also when some attribute's declared length runs past the
  end of the buffer. The parser has no such check: \<open>subarray\<close> cuts the value at the end
  of the buffer, and the truncated request parses, with an empty value for its attribute.
\<close>

theorem parseSTUNMessage_overrun_counterexample:
  "declared_attribute_overrun truncated_request \<and> parseSTUNMessage truncated_request \<noteq> None"
  by (simp add: parse_truncated_request)
     (simp add: declared_attribute_overrun_def truncated_request_def readUInt16BE_def
        attributeOverruns.simps)


text \<open>
  C5, amended: parsing fails exactly when the buffer is shorter than the 20-byte header
  or the magic cookie field is not \<open>0x2112A442\<close>; in every other case it returns a
  message. A message with a wrong cookie is rejected whatever follows the header, so
  none of its attributes is read.
\<close>

theorem parseSTUNMessage_fails_iff:
  "parseSTUNMessage buffer = None \<longleftrightarrow>
     length buffer < 20 \<or> readUInt32BE buffer 4 \<noteq> Some STUN_MAGIC_COOKIE"
proof (cases "length buffer < 20")
  case True
  then show ?thesis by (simp add: parseSTUNMessage_def)
next
  case False
  then obtain t l c where r: "readUInt16BE buffer 0 = Some t" "readUInt16BE buffer 2 = Some l"
      "readUInt32BE buffer 4 = Some c"
    by (auto simp add: readUInt16BE_def readUInt32BE_def)
  obtain attrs where "parseAttributes buffer l 20 Map.empty = Some attrs"
    using parseAttributes_returns [of buffer l 20 Map.empty] by auto
  with False r show ?thesis by (simp add: parseSTUNMessage_def Let_def)
qed

theorem parseSTUNMessage_fails_iff_witness:
  "parseSTUNMessage [0x00, 0x01, 0x00, 0x00, 0x21, 0x12, 0xA4, 0x43,
      0x01, 0x02, 0x03, 0x04, 0x05, 0x06, 0x07, 0x08, 0x09, 0x0A, 0x0B, 0x0C] = None \<and>
   parseSTUNMessage [0x00, 0x01, 0x00, 0x00, 0x21, 0x12, 0xA4, 0x42] = None \<and>
   parseSTUNMessage truncated_request \<noteq> None"
  using parseSTUNMessage_fails_iff [of "[0x00, 0x01, 0x00, 0x00, 0x21, 0x12, 0xA4, 0x43,
      0x01, 0x02, 0x03, 0x04, 0x05, 0x06, 0x07, 0x08, 0x09, 0x0A, 0x0B, 0x0C]"]
    parseSTUNMessage_fails_iff [of "[0x00, 0x01, 0x00, 0x00, 0x21, 0x12, 0xA4, 0x42]"]
    parseSTUNMessage_fails_iff [of truncated_request]
  by (simp add: readUInt32BE_def STUN_MAGIC_COOKIE_def truncated_request_def)

subsection \<open>Round trip\<close>

lemma cookie_high: "js_sar (Some (int STUN_MAGIC_COOKIE)) 16 = 0x2112"
  by (simp add: js_sar_def ToInt32_def STUN_MAGIC_COOKIE_def)

lemma magicBytes_eq: "magicBytes = [0x21, 0x12, 0xA4, 0x42]"
  by (simp add: magicBytes_def js_sar_def js_and_def ToInt32_def STUN_MAGIC_COOKIE_def)

lemma int_xor_small:
  fixes a b :: int
  assumes "0 \<le> a" "a < 2 ^ n" "0 \<le> b" "b < 2 ^ n"
  shows "0 \<le> a XOR b" "a XOR b < 2 ^ n"
proof -
  show "0 \<le> a XOR b" using assms by simp
  have "take_bit n a = a" "take_bit n b = b" using assms by (simp_all add: take_bit_int_eq_self)
  then have "take_bit n (a XOR b) = a XOR b" by (simp add: take_bit_xor)
  then show "a XOR b < 2 ^ n" by (metis take_bit_int_less_exp)
qed

lemma js_xor_small:
  assumes "0 \<le> a" "a < 2 ^ 16" "0 \<le> b" "b < 2 ^ 16"
  shows "js_xor (Some a) (Some b) = a XOR b"
proof -
  have r: "0 \<le> a XOR b" "a XOR b < 2 ^ 16" using int_xor_small [OF assms] by simp_all
  have "ToInt32 (Some a) XOR ToInt32 (Some b) = (word_of_int (a XOR b) :: 32 word)"
    by (simp add: ToInt32_def word_wi_log_defs)
  moreover have "sint (word_of_int (a XOR b) :: 32 word) = a XOR b"
  proof -
    have p: "(0::int) \<le> 2 ^ 31" "(2::int) ^ 16 < 2 ^ 31" by simp_all
    have "- (2 ^ 31) \<le> a XOR b" using r(1) p(1) by linarith
    moreover have "a XOR b < 2 ^ 31" using r(2) p(2) by linarith
    ultimately
    have "signed_take_bit 31 (a XOR b) = a XOR b" by (rule signed_take_bit_int_eq_self)
    then show ?thesis by (simp add: sint_sbintrunc')
  qed
  ultimately show ?thesis by (simp add: js_xor_def)
qed

lemma xor_twice: "((a::int) XOR b) XOR b = a"
  by (simp add: xor.assoc)

text \<open>XOR with a 16-bit mask, on a 16-bit value.\<close>

lemma js_xor_16:
  assumes "0 \<le> p" "p \<le> 65535" "0 \<le> m" "m \<le> 65535"
  shows "0 \<le> js_xor (Some p) (Some m)" "js_xor (Some p) (Some m) \<le> 65535"
    "js_xor (Some (js_xor (Some p) (Some m))) (Some m) = p"
proof -
  have a: "p < 2 ^ 16" "m < 2 ^ 16" using assms by simp_all
  have e: "js_xor (Some p) (Some m) = p XOR m" using js_xor_small assms(1) a(1) assms(3) a(2) .
  have r: "0 \<le> p XOR m" "p XOR m < 2 ^ 16"
    using int_xor_small [OF assms(1) a(1) assms(3) a(2)] by simp_all
  show "0 \<le> js_xor (Some p) (Some m)" using e r by simp
  show "js_xor (Some p) (Some m) \<le> 65535" using e r by simp
  have "js_xor (Some (p XOR m)) (Some m) = (p XOR m) XOR m"
    using js_xor_small r(1) r(2) assms(3) a(2) .
  then show "js_xor (Some (js_xor (Some p) (Some m))) (Some m) = p"
    using e by (simp add: xor_twice)
qed

lemma js_xor_8:
  assumes "0 \<le> p" "p \<le> 255" "0 \<le> m" "m \<le> 255"
  shows "0 \<le> js_xor (Some p) (Some m)" "js_xor (Some p) (Some m) \<le> 255"
    "js_xor (Some (js_xor (Some p) (Some m))) (Some m) = p"
proof -
  have a: "p < 2 ^ 8" "m < 2 ^ 8" using assms by simp_all
  have b: "p < 2 ^ 16" "m < 2 ^ 16" using assms by simp_all
  have e: "js_xor (Some p) (Some m) = p XOR m" using js_xor_small assms(1) b(1) assms(3) b(2) .
  have r: "0 \<le> p XOR m" "p XOR m < 2 ^ 8"
    using int_xor_small [OF assms(1) a(1) assms(3) a(2)] by simp_all
  show "0 \<le> js_xor (Some p) (Some m)" using e r by simp
  show "js_xor (Some p) (Some m) \<le> 255" using e r by simp
  show "js_xor (Some (js_xor (Some p) (Some m))) (Some m) = p"
    using js_xor_16(3) [of p m] assms by simp
qed

lemma byte_of_int:
  fixes x :: int
  assumes "0 \<le> x" "x \<le> 255"
  shows "uint (word_of_int x :: 8 word) = x"
  using assms by (simp add: uint_word_of_int take_bit_eq_mod)

lemma byte_pair:
  fixes x :: int
  assumes "0 \<le> x" "x \<le> 65535"
  shows "int (unat (word_of_int (x div 256) :: 8 word) * 256 + unat (word_of_int x :: 8 word)) = x"
proof -
  have a: "int (unat (word_of_int (x div 256) :: 8 word)) = x div 256"
    using assms by (simp add: unat_eq_nat_uint uint_word_of_int take_bit_eq_mod)
  have b: "int (unat (word_of_int x :: 8 word)) = x mod 256"
    using assms by (simp add: unat_eq_nat_uint uint_word_of_int take_bit_eq_mod)
  show ?thesis using a b by simp
qed


lemma parse_response_single:
  "parseSTUNMessage
     ([0x01, 0x01, 0x00, 0x0C, 0x21, 0x12, 0xA4, 0x42,
       t0, t1, t2, t3, t4, t5, t6, t7, t8, t9, t10, t11,
       0x00, 0x20, 0x00, 0x08, v0, v1, v2, v3, v4, v5, v6, v7]) =
   Some \<lparr>msgType = 0x0101, msgLength = 12,
         transactionId = [t0, t1, t2, t3, t4, t5, t6, t7, t8, t9, t10, t11],
         attributes = [0x20 \<mapsto> [v0, v1, v2, v3, v4, v5, v6, v7]]\<rparr>"
  by (simp add: parseSTUNMessage_def readUInt16BE_def readUInt32BE_def
      STUN_MAGIC_COOKIE_def subarray_def parseAttributes.simps Let_def)

lemma parse_response_origin:
  "parseSTUNMessage
     ([0x01, 0x01, 0x00, 0x18, 0x21, 0x12, 0xA4, 0x42,
       t0, t1, t2, t3, t4, t5, t6, t7, t8, t9, t10, t11,
       0x00, 0x20, 0x00, 0x08, v0, v1, v2, v3, v4, v5, v6, v7,
       0x80, 0x2B, 0x00, 0x08, w0, w1, w2, w3, w4, w5, w6, w7]) =
   Some \<lparr>msgType = 0x0101, msgLength = 24,
         transactionId = [t0, t1, t2, t3, t4, t5, t6, t7, t8, t9, t10, t11],
         attributes = [0x20 \<mapsto> [v0, v1, v2, v3, v4, v5, v6, v7],
                       0x802B \<mapsto> [w0, w1, w2, w3, w4, w5, w6, w7]]\<rparr>"
  by (simp add: parseSTUNMessage_def readUInt16BE_def readUInt32BE_def
      STUN_MAGIC_COOKIE_def subarray_def parseAttributes.simps Let_def)

lemma build_xor_attr:
  assumes "valid_ipv4 addr [a0, a1, a2, a3]" and "0 \<le> p" and "p \<le> 65535"
  shows "buildXorMappedAddress addr p tid =
     Inr [0x00, 0x20, 0x00, 0x08, 0x00, 0x01,
          word_of_int (js_xor (Some p) (Some 0x2112) div 256),
          word_of_int (js_xor (Some p) (Some 0x2112)),
          word_of_int (js_xor (Some a0) (Some 0x21)),
          word_of_int (js_xor (Some a1) (Some 0x12)),
          word_of_int (js_xor (Some a2) (Some 0xA4)),
          word_of_int (js_xor (Some a3) (Some 0x42))]"
proof -
  from assms(1) have parts: "map Number_str (split_on CHR ''.'' addr) =
      [Some a0, Some a1, Some a2, Some a3]"
    and r: "0 \<le> a0" "a0 \<le> 255" "0 \<le> a1" "a1 \<le> 255" "0 \<le> a2" "a2 \<le> 255"
      "0 \<le> a3" "a3 \<le> 255"
    by (simp_all add: valid_ipv4_def)
  have xp: "0 \<le> js_xor (Some p) (Some 0x2112)" "js_xor (Some p) (Some 0x2112) \<le> 65535"
    using js_xor_16(1,2) [of p "0x2112"] assms(2,3) by simp_all
  have x0: "0 \<le> js_xor (Some a0) (Some 0x21)" "js_xor (Some a0) (Some 0x21) \<le> 255"
    using js_xor_8(1,2) [of a0 "0x21"] r by simp_all
  have x1: "0 \<le> js_xor (Some a1) (Some 0x12)" "js_xor (Some a1) (Some 0x12) \<le> 255"
    using js_xor_8(1,2) [of a1 "0x12"] r by simp_all
  have x2: "0 \<le> js_xor (Some a2) (Some 0xA4)" "js_xor (Some a2) (Some 0xA4) \<le> 255"
    using js_xor_8(1,2) [of a2 "0xA4"] r by simp_all
  have x3: "0 \<le> js_xor (Some a3) (Some 0x42)" "js_xor (Some a3) (Some 0x42) \<le> 255"
    using js_xor_8(1,2) [of a3 "0x42"] r by simp_all
  have idx: "[0..<4] = [0, 1, 2, 3::nat]" by (simp add: upt_rec)
  show ?thesis
    using xp x0 x1 x2 x3
    by (simp add: buildXorMappedAddress_def parts cookie_high magicBytes_eq idx at_def
        writeUInt8_def writeUInt16BE_def and_then_def XOR_MAPPED_ADDRESS_def Let_def)
qed

lemma build_origin_attr:
  assumes "valid_ipv4 addr [a0, a1, a2, a3]" and "0 \<le> p" and "p \<le> 65535"
  shows "buildResponseOrigin addr p =
     Inr [0x80, 0x2B, 0x00, 0x08, 0x00, 0x01,
          word_of_int (p div 256), word_of_int p,
          word_of_int a0, word_of_int a1, word_of_int a2, word_of_int a3]"
proof -
  from assms(1) have parts: "map Number_str (split_on CHR ''.'' addr) =
      [Some a0, Some a1, Some a2, Some a3]"
    and r: "0 \<le> a0" "a0 \<le> 255" "0 \<le> a1" "a1 \<le> 255" "0 \<le> a2" "a2 \<le> 255"
      "0 \<le> a3" "a3 \<le> 255"
    by (simp_all add: valid_ipv4_def)
  show ?thesis
    using r assms(2,3)
    by (simp add: buildResponseOrigin_def parts at_num_def
        writeUInt8_def writeUInt16BE_def and_then_def RESPONSE_ORIGIN_def Let_def)
qed


lemma unxor_value:
  assumes "0 \<le> a0" "a0 \<le> 255" "0 \<le> a1" "a1 \<le> 255" "0 \<le> a2" "a2 \<le> 255"
      "0 \<le> a3" "a3 \<le> 255" and "0 \<le> p" and "p \<le> 65535"
  defines "v \<equiv> [0x00, 0x01,
          word_of_int (js_xor (Some p) (Some 0x2112) div 256),
          word_of_int (js_xor (Some p) (Some 0x2112)),
          word_of_int (js_xor (Some a0) (Some 0x21)),
          word_of_int (js_xor (Some a1) (Some 0x12)),
          word_of_int (js_xor (Some a2) (Some 0xA4)),
          word_of_int (js_xor (Some a3) (Some 0x42)) :: 8 word]"
  shows "unxor_port v = p" and "unxor_address v = [a0, a1, a2, a3]"
proof -
  have xp: "0 \<le> js_xor (Some p) (Some 0x2112)" "js_xor (Some p) (Some 0x2112) \<le> 65535"
      "js_xor (Some (js_xor (Some p) (Some 0x2112))) (Some 0x2112) = p"
    using js_xor_16 [of p "0x2112"] assms(9,10) by simp_all
  have rd: "map_option int (readUInt16BE v 2) = Some (js_xor (Some p) (Some 0x2112))"
    using byte_pair [OF xp(1,2)] by (simp add: v_def readUInt16BE_def)
  show "unxor_port v = p"
    unfolding unxor_port_def rd cookie_high using xp(3) by simp
  have x0: "uint (word_of_int (js_xor (Some a0) (Some 0x21)) :: 8 word) =
        js_xor (Some a0) (Some 0x21)"
      "js_xor (Some (js_xor (Some a0) (Some 0x21))) (Some 0x21) = a0"
    using js_xor_8 [of a0 "0x21"] assms(1,2) by (simp_all add: byte_of_int)
  have x1: "uint (word_of_int (js_xor (Some a1) (Some 0x12)) :: 8 word) =
        js_xor (Some a1) (Some 0x12)"
      "js_xor (Some (js_xor (Some a1) (Some 0x12))) (Some 0x12) = a1"
    using js_xor_8 [of a1 "0x12"] assms(3,4) by (simp_all add: byte_of_int)
  have x2: "uint (word_of_int (js_xor (Some a2) (Some 0xA4)) :: 8 word) =
        js_xor (Some a2) (Some 0xA4)"
      "js_xor (Some (js_xor (Some a2) (Some 0xA4))) (Some 0xA4) = a2"
    using js_xor_8 [of a2 "0xA4"] assms(5,6) by (simp_all add: byte_of_int)
  have x3: "uint (word_of_int (js_xor (Some a3) (Some 0x42)) :: 8 word) =
        js_xor (Some a3) (Some 0x42)"
      "js_xor (Some (js_xor (Some a3) (Some 0x42))) (Some 0x42) = a3"
    using js_xor_8 [of a3 "0x42"] assms(7,8) by (simp_all add: byte_of_int)
  have idx: "[0..<4] = [0, 1, 2, 3::nat]" by (simp add: upt_rec)
  show "unxor_address v = [a0, a1, a2, a3]"
    by (simp add: unxor_address_def idx at_def magicBytes_eq v_def x0 x1 x2 x3)
qed

lemma twelve_bytes:
  assumes "length (tid :: Buffer) = 12"
  obtains t0 t1 t2 t3 t4 t5 t6 t7 t8 t9 t10 t11
  where "tid = [t0, t1, t2, t3, t4, t5, t6, t7, t8, t9, t10, t11]"
  using assms by (auto simp add: length_Suc_conv eval_nat_numeral)

lemma four_octets:
  assumes "length (bs :: int list) = 4"
  obtains b0 b1 b2 b3 where "bs = [b0, b1, b2, b3]"
  using assms by (auto simp add: length_Suc_conv eval_nat_numeral)

lemma valid_ipv4_nonempty: "valid_ipv4 addr octets \<Longrightarrow> addr \<noteq> []"
  by (auto simp add: valid_ipv4_def)

text \<open>
  Every dotted text of four octets up to 255 is a valid address in the sense of
  \<open>valid_ipv4\<close>: \<open>split\<close> and \<open>Number\<close> give back its octets.
\<close>

lemma digit_table:
  assumes "n < 10"
  shows "is_digit (''0123456789'' ! n)" and "digit_val (''0123456789'' ! n) = int n"
proof -
  from assms have "n \<in> {0, 1, 2, 3, 4, 5, 6, 7, 8, 9}" by auto
  then show "is_digit (''0123456789'' ! n)" and "digit_val (''0123456789'' ! n) = int n"
    by (auto simp add: is_digit_def digit_val_def)
qed

lemma string_of_nat_digits: "list_all is_digit (string_of_nat n)"
proof (induction n rule: string_of_nat.induct)
  case (1 n)
  show ?case
  proof (cases "n < 10")
    case True
    then show ?thesis by (subst string_of_nat.simps) (simp add: digit_table)
  next
    case False
    then have "n mod 10 < 10" by simp
    with False "1.IH" show ?thesis by (subst string_of_nat.simps) (simp add: digit_table)
  qed
qed

lemma string_of_nat_value:
  "foldl (\<lambda>a c. 10 * a + digit_val c) 0 (string_of_nat n) = int n"
proof (induction n rule: string_of_nat.induct)
  case (1 n)
  show ?case
  proof (cases "n < 10")
    case True
    then show ?thesis by (subst string_of_nat.simps) (simp add: digit_table)
  next
    case False
    then have m: "n mod 10 < 10" by simp
    have "int n = 10 * int (n div 10) + int (n mod 10)" by presburger
    with False "1.IH" m show ?thesis
      by (subst string_of_nat.simps) (simp add: digit_table)
  qed
qed

lemma Number_str_string_of_nat: "Number_str (string_of_nat n) = Some (int n)"
  by (simp add: Number_str_def string_of_nat_digits string_of_nat_value)

lemma split_on_no_sep: "sep \<notin> set xs \<Longrightarrow> split_on sep xs = [xs]"
  by (induction xs) auto

lemma split_on_append:
  "sep \<notin> set xs \<Longrightarrow> split_on sep (xs @ sep # ys) = xs # split_on sep ys"
  by (induction xs) auto

lemma string_of_nat_no_dot: "CHR ''.'' \<notin> set (string_of_nat n)"
proof
  assume "CHR ''.'' \<in> set (string_of_nat n)"
  then have "is_digit CHR ''.''" using string_of_nat_digits [of n] by (simp add: list_all_iff)
  then show False by (simp add: is_digit_def)
qed

lemma valid_ipv4_dotted:
  assumes "a \<le> 255" "b \<le> 255" "c \<le> 255" "d \<le> 255"
  shows "valid_ipv4 (dotted a b c d) [int a, int b, int c, int d]"
proof -
  have "split_on CHR ''.'' (dotted a b c d) =
      [string_of_nat a, string_of_nat b, string_of_nat c, string_of_nat d]"
    unfolding dotted_def
    by (simp add: split_on_append split_on_no_sep string_of_nat_no_dot)
  then show ?thesis using assms by (simp add: valid_ipv4_def Number_str_string_of_nat)
qed

text \<open>
  C4. For a 12-byte transaction ID, a valid IPv4 address and a 16-bit port, with the
  origin either absent or a valid address and port, the response is built without error
  and parses to a binding response with the same transaction ID, whose
  XOR-MAPPED-ADDRESS value gives back the port and the four octets once the XOR with the
  magic cookie is applied again.
\<close>

theorem binding_roundtrip:
  assumes "length tid = 12"
    and "valid_ipv4 addr [a0, a1, a2, a3]"
    and "0 \<le> p" and "p \<le> 65535"
    and "(rAddr = None \<and> rPort = None) \<or>
         (\<exists>ra rp bs. rAddr = Some ra \<and> rPort = Some rp \<and> valid_ipv4 ra bs \<and>
            0 < rp \<and> rp \<le> 65535)"
  shows "\<exists>bytes m v.
           buildSTUNResponse tid addr p rAddr rPort = Inr bytes \<and>
           parseSTUNMessage bytes = Some m \<and>
           msgType m = BINDING_RESPONSE \<and>
           transactionId m = tid \<and>
           attributes m XOR_MAPPED_ADDRESS = Some v \<and>
           unxor_port v = p \<and>
           unxor_address v = [a0, a1, a2, a3]"
proof -
  obtain t0 t1 t2 t3 t4 t5 t6 t7 t8 t9 t10 t11
    where tid: "tid = [t0, t1, t2, t3, t4, t5, t6, t7, t8, t9, t10, t11]"
    using twelve_bytes [OF assms(1)] .
  from assms(2) have r: "0 \<le> a0" "a0 \<le> 255" "0 \<le> a1" "a1 \<le> 255" "0 \<le> a2" "a2 \<le> 255"
      "0 \<le> a3" "a3 \<le> 255"
    by (simp_all add: valid_ipv4_def)
  note xa = build_xor_attr [OF assms(2,3,4)]
  note ux = unxor_value [OF r assms(3,4)]
  from assms(5) show ?thesis
  proof
    assume "rAddr = None \<and> rPort = None"
    then have b: "buildSTUNResponse tid addr p rAddr rPort =
        Inr ([0x01, 0x01, 0x00, 0x0C, 0x21, 0x12, 0xA4, 0x42,
              t0, t1, t2, t3, t4, t5, t6, t7, t8, t9, t10, t11,
              0x00, 0x20, 0x00, 0x08, 0x00, 0x01,
              word_of_int (js_xor (Some p) (Some 0x2112) div 256),
              word_of_int (js_xor (Some p) (Some 0x2112)),
              word_of_int (js_xor (Some a0) (Some 0x21)),
              word_of_int (js_xor (Some a1) (Some 0x12)),
              word_of_int (js_xor (Some a2) (Some 0xA4)),
              word_of_int (js_xor (Some a3) (Some 0x42))])"
      by (simp add: buildSTUNResponse_def xa truthy_str_def and_then_def writeUInt16BE_def
          writeUInt32BE_def BINDING_RESPONSE_def STUN_MAGIC_COOKIE_def tid)
    show ?thesis
      unfolding b
      by (simp add: parse_response_single BINDING_RESPONSE_def XOR_MAPPED_ADDRESS_def tid ux)
  next
    assume "\<exists>ra rp bs. rAddr = Some ra \<and> rPort = Some rp \<and> valid_ipv4 ra bs \<and>
        0 < rp \<and> rp \<le> 65535"
    then obtain ra rp bs where o: "rAddr = Some ra" "rPort = Some rp" "valid_ipv4 ra bs"
        "0 < rp" "rp \<le> 65535"
      by blast
    from o(3) have "length bs = 4" by (simp add: valid_ipv4_def)
    then obtain b0 b1 b2 b3 where bs: "bs = [b0, b1, b2, b3]" by (rule four_octets)
    have ne: "ra \<noteq> []" using valid_ipv4_nonempty [OF o(3)] .
    have oa: "buildResponseOrigin ra rp =
        Inr [0x80, 0x2B, 0x00, 0x08, 0x00, 0x01, word_of_int (rp div 256), word_of_int rp,
             word_of_int b0, word_of_int b1, word_of_int b2, word_of_int b3]"
      using build_origin_attr [of ra b0 b1 b2 b3 rp] o bs by simp
    have b: "buildSTUNResponse tid addr p rAddr rPort =
        Inr ([0x01, 0x01, 0x00, 0x18, 0x21, 0x12, 0xA4, 0x42,
              t0, t1, t2, t3, t4, t5, t6, t7, t8, t9, t10, t11,
              0x00, 0x20, 0x00, 0x08, 0x00, 0x01,
              word_of_int (js_xor (Some p) (Some 0x2112) div 256),
              word_of_int (js_xor (Some p) (Some 0x2112)),
              word_of_int (js_xor (Some a0) (Some 0x21)),
              word_of_int (js_xor (Some a1) (Some 0x12)),
              word_of_int (js_xor (Some a2) (Some 0xA4)),
              word_of_int (js_xor (Some a3) (Some 0x42)),
              0x80, 0x2B, 0x00, 0x08, 0x00, 0x01, word_of_int (rp div 256), word_of_int rp,
              word_of_int b0, word_of_int b1, word_of_int b2, word_of_int b3])"
      using o(4) ne
      by (simp add: buildSTUNResponse_def xa oa o(1,2) truthy_str_def truthy_num_def
          and_then_def writeUInt16BE_def writeUInt32BE_def BINDING_RESPONSE_def
          STUN_MAGIC_COOKIE_def tid)
    show ?thesis
      unfolding b
      by (simp add: parse_response_origin BINDING_RESPONSE_def XOR_MAPPED_ADDRESS_def tid ux)
  qed
qed


lemma valid_sample_addresses:
  "valid_ipv4 ''203.0.113.10'' [203, 0, 113, 10]" "valid_ipv4 ''0.0.0.0'' [0, 0, 0, 0]"
  by (simp_all add: valid_ipv4_def Number_str_def is_digit_def digit_val_def)

theorem binding_roundtrip_witness:
  "valid_ipv4 ''203.0.113.10'' [203, 0, 113, 10] \<and>
   (\<exists>bytes m v.
      buildSTUNResponse sample_tid ''203.0.113.10'' 40000 (Some ''0.0.0.0'') (Some 3478)
        = Inr bytes \<and>
      parseSTUNMessage bytes = Some m \<and>
      msgType m = BINDING_RESPONSE \<and>
      transactionId m = sample_tid \<and>
      attributes m XOR_MAPPED_ADDRESS = Some v \<and>
      unxor_port v = 40000 \<and>
      unxor_address v = [203, 0, 113, 10])"
proof -
  have l: "length sample_tid = 12" by (simp add: sample_tid_def)
  have o: "(Some ''0.0.0.0'' = None \<and> Some (3478::int) = None) \<or>
         (\<exists>ra rp bs. Some ''0.0.0.0'' = Some ra \<and> Some (3478::int) = Some rp \<and>
            valid_ipv4 ra bs \<and> 0 < rp \<and> rp \<le> 65535)"
    using valid_sample_addresses(2) by auto
  show ?thesis
    using binding_roundtrip [OF l valid_sample_addresses(1) _ _ o, of 40000]
      valid_sample_addresses(1)
    by simp
qed

section \<open>Properties of the rendezvous server\<close>

lemma parse_change_port_request:
  "parseSTUNMessage change_port_request =
     Some \<lparr>msgType = 1, msgLength = 8, transactionId = sample_tid,
           attributes = [3 \<mapsto> [0x00, 0x00, 0x00, 0x02]]\<rparr>"
  by (simp add: parseSTUNMessage_def change_port_request_def sample_tid_def readUInt16BE_def
      readUInt32BE_def STUN_MAGIC_COOKIE_def subarray_def parseAttributes.simps Let_def)

lemma change_port_flags: "parseChangeRequest [0x00, 0x00, 0x00, 0x02] = (False, True)"
  by (simp add: parseChangeRequest_def readUInt32BE_def js_and_def ToInt32_def)

lemma onMessage_via_own_port:
  assumes "onMessage listenerPort localAddr msg rinfo = Inr ds"
  shows "length ds \<le> 1 \<and> list_all (\<lambda>d. viaPort d = listenerPort) ds"
  using assms
  by (auto simp add: onMessage_def and_then_def Let_def
      split: option.splits if_splits prod.splits sum.splits)

text \<open>
  C6 on the primary listener, evaluated: on a binding request with change-port set and
  change-IP clear the listener on port 3478 sends exactly one datagram, through its own
  socket (port 3478), not from the alternate port 3479; only the RESPONSE-ORIGIN
  attribute of the payload names port 3479.
\<close>

theorem primary_change_port_reply_from_own_port:
  "map_sum id (map (\<lambda>d. (viaPort d, toPort d, toAddress d)))
     (onMessage PORTS_PRIMARY ''0.0.0.0'' change_port_request sample_client) =
     Inr [(3478, 40000, ''203.0.113.10'')] \<and>
   map_sum id (map (\<lambda>d. map_option (\<lambda>m. map_option (\<lambda>v. readUInt16BE v 2)
                                       (attributes m RESPONSE_ORIGIN))
                             (parseSTUNMessage (payload d))))
     (onMessage PORTS_PRIMARY ''0.0.0.0'' change_port_request sample_client) =
     Inr [Some (Some (Some 3479))]"
proof -
  have b: "buildSTUNResponse sample_tid ''203.0.113.10'' 40000 (Some ''0.0.0.0'') (Some 3479) =
        Inr ([0x01, 0x01, 0x00, 0x18, 0x21, 0x12, 0xA4, 0x42] @ sample_tid @
             [0x00, 0x20, 0x00, 0x08, 0x00, 0x01, 0xBD, 0x52, 0xEA, 0x12, 0xD5, 0x48,
              0x80, 0x2B, 0x00, 0x08, 0x00, 0x01, 0x0D, 0x97, 0x00, 0x00, 0x00, 0x00])"
    using build_xor_attr [OF valid_sample_addresses(1), of 40000 sample_tid]
      build_origin_attr [OF valid_sample_addresses(2), of 3479]
    by (simp add: buildSTUNResponse_def truthy_str_def truthy_num_def
          and_then_def writeUInt16BE_def writeUInt32BE_def BINDING_RESPONSE_def
          STUN_MAGIC_COOKIE_def sample_tid_def js_xor_def ToInt32_def)
  have m: "onMessage PORTS_PRIMARY ''0.0.0.0'' change_port_request sample_client =
      Inr [\<lparr>viaPort = 3478,
            payload = [0x01, 0x01, 0x00, 0x18, 0x21, 0x12, 0xA4, 0x42] @ sample_tid @
             [0x00, 0x20, 0x00, 0x08, 0x00, 0x01, 0xBD, 0x52, 0xEA, 0x12, 0xD5, 0x48,
              0x80, 0x2B, 0x00, 0x08, 0x00, 0x01, 0x0D, 0x97, 0x00, 0x00, 0x00, 0x00],
            toPort = 40000, toAddress = ''203.0.113.10''\<rparr>]"
    by (simp add: onMessage_def parse_change_port_request BINDING_REQUEST_def CHANGE_REQUEST_def
        change_port_flags PORTS_PRIMARY_def PORTS_SECONDARY_def sample_client_def b and_then_def)
  show ?thesis
    unfolding m
    by (simp add: sample_tid_def parse_response_origin RESPONSE_ORIGIN_def readUInt16BE_def)
qed


end
